theory Spec2Isabelle
  imports Main "HOL-Library.Word" "HOL-Library.Sublist"
begin

section \<open>Common types\<close>

text \<open>
  Handles and pointers of the Windows API (\<^verbatim>\<open>HDC\<close>, \<^verbatim>\<open>HBITMAP\<close>, COM interface
  pointers, \<^verbatim>\<open>uint8_t *\<close>) are natural numbers; \<open>0\<close> is \<^verbatim>\<open>nullptr\<close>.
  \<^verbatim>\<open>unsigned\<close> is a 32-bit word, \<^verbatim>\<open>int\<close> an integer (every \<^verbatim>\<open>int\<close> the code
  computes is read from a 32-bit word with \<open>sint\<close>), a pixel byte an 8-bit word.
  What the operating system answers to a call is an argument of the modelled function.
\<close>

type_synonym handle = nat
type_synonym byte = "8 word"

section \<open>ScreenCapGDI.h, ScreenCapGDI.cpp\<close>

text \<open>
  The members of \<^verbatim>\<open>class ScreenCaptureGDI\<close>, with their default initialisers in
  \<open>GDI_new\<close>. \<open>dib_memory\<close> is not a member: it is the content of the pixel array of
  the DIB section, the memory \<open>m_dibBits\<close> points to (empty when there is none).
\<close>

record ScreenCaptureGDI =
  m_width :: "32 word"
  m_height :: "32 word"
  m_depth :: "32 word"
  m_stride :: int
  m_hdcMem :: handle
  m_dibSection :: handle
  m_dibOld :: handle
  m_dibBits :: handle
  dib_memory :: "byte list"

definition GDI_new :: ScreenCaptureGDI where
  "GDI_new = \<lparr>m_width = 0, m_height = 0, m_depth = 0, m_stride = 0, m_hdcMem = 0,
     m_dibSection = 0, m_dibOld = 0, m_dibBits = 0, dib_memory = []\<rparr>"

text \<open>
  The answers of the operating system during one \<^verbatim>\<open>Startup\<close>: the five system metrics,
  the handle from \<^verbatim>\<open>CreateCompatibleDC\<close>, the handle and the pixel pointer from
  \<^verbatim>\<open>CreateDIBSection\<close> with the initial content of the pixel array, and the previous
  bitmap from \<^verbatim>\<open>SelectObject\<close>.
\<close>

record gdi_os =
  cx_screen :: int
  cy_screen :: int
  c_monitors :: int
  cx_virtualscreen :: int
  cy_virtualscreen :: int
  compatible_dc :: handle
  dib_section :: handle
  dib_bits :: handle
  dib_initial :: "byte list"
  old_bitmap :: handle

text \<open>
  \<^verbatim>\<open>while (m_stride % 4) ++m_stride;\<close> The remainder of C truncates, that of HOL
  floors; both are zero on the same integers.
\<close>

function align4 :: "int \<Rightarrow> int" where
  "align4 stride = (if stride mod 4 \<noteq> 0 then align4 (stride + 1) else stride)"
  by pat_completeness auto
termination
proof (relation "measure (\<lambda>stride. nat ((- stride) mod 4))")
  show "wf (measure (\<lambda>stride. nat ((- stride) mod 4)))"
    by simp
next
  fix stride :: int
  assume a: "stride mod 4 \<noteq> 0"
  define r where "r = (- stride) mod 4"
  have r: "0 \<le> r" "r < 4"
    by (simp_all add: r_def)
  have "\<not> 4 dvd stride"
    using a by (simp add: dvd_eq_mod_eq_0)
  then have "\<not> 4 dvd - stride"
    by simp
  then have "r \<noteq> 0"
    unfolding r_def by (simp only: dvd_eq_mod_eq_0 not_False_eq_True)
  have "(- (stride + 1)) mod 4 = (r - 1) mod 4"
    unfolding r_def by (simp add: mod_diff_left_eq)
  also have "\<dots> = r - 1"
    using r \<open>r \<noteq> 0\<close> by (intro mod_pos_pos_trivial) linarith+
  finally have "(- (stride + 1)) mod 4 < r"
    by simp
  then show "(stride + 1, stride) \<in> measure (\<lambda>stride. nat ((- stride) mod 4))"
    using r by (simp add: r_def)
qed

declare align4.simps [simp del]

definition GDI_Startup :: "ScreenCaptureGDI \<Rightarrow> gdi_os \<Rightarrow> bool \<times> ScreenCaptureGDI" where
  "GDI_Startup g os =
    (let g1 = g\<lparr>m_width := word_of_int (cx_screen os),
                  m_height := word_of_int (cy_screen os)\<rparr>;
         g2 = (if 1 < c_monitors os
               then g1\<lparr>m_width := word_of_int (cx_virtualscreen os),
                        m_height := word_of_int (cy_virtualscreen os)\<rparr>
               else g1);
         g3 = g2\<lparr>m_hdcMem := compatible_dc os\<rparr>
     in if m_hdcMem g3 = 0 then (False, g3)
        else
          let g4 = g3\<lparr>m_dibSection := dib_section os, m_dibBits := dib_bits os,
                        dib_memory := (if dib_bits os = 0 then [] else dib_initial os)\<rparr>
          in if m_dibSection g4 = 0 \<or> m_dibBits g4 = 0
             then (False, g4\<lparr>m_hdcMem := 0\<rparr>)
             else
               let g5 = g4\<lparr>m_depth := 32,
                             m_stride := align4 (sint ((m_width g4 * 32) div 8))\<rparr>;
                   g6 = g5\<lparr>m_dibOld := old_bitmap os\<rparr>
               in (True, g6))"

text \<open>
  \<^verbatim>\<open>Shutdown\<close> resets three handles and the four numbers; it does not assign
  \<open>m_dibBits\<close>. \<^verbatim>\<open>DeleteObject(m_dibSection)\<close> frees the pixel array.
\<close>

definition GDI_Shutdown :: "ScreenCaptureGDI \<Rightarrow> ScreenCaptureGDI" where
  "GDI_Shutdown g =
     g\<lparr>dib_memory := (if m_dibSection g \<noteq> 0 then [] else dib_memory g),
        m_dibOld := 0, m_hdcMem := 0, m_dibSection := 0,
        m_width := 0, m_height := 0, m_depth := 0, m_stride := 0\<rparr>"

text \<open>
  \<^verbatim>\<open>memcpy\<close> between the pixel array and the \<^verbatim>\<open>scanline\<close> vector: \<open>mem_load\<close> reads
  \<open>n\<close> bytes at an offset, \<open>mem_store\<close> overwrites the bytes at an offset. An access
  past the end of the array is undefined in C++; the theorems below state that the
  accesses are in range.
\<close>

definition mem_load :: "byte list \<Rightarrow> nat \<Rightarrow> nat \<Rightarrow> byte list" where
  "mem_load mem off n = take n (drop off mem)"

definition mem_store :: "byte list \<Rightarrow> nat \<Rightarrow> byte list \<Rightarrow> byte list" where
  "mem_store mem off bs = take off mem @ bs @ drop (off + length bs) mem"

text \<open>
  The loop \<^verbatim>\<open>for (unsigned y = 0; y < m_height / 2; y++)\<close> of \<^verbatim>\<open>CaptureFrame\<close>;
  \<open>scanline1\<close> and \<open>scanline2\<close> are the offsets of the two pointers from \<open>m_dibBits\<close>.
\<close>

function flip_scanlines :: "nat \<Rightarrow> nat \<Rightarrow> nat \<Rightarrow> nat \<Rightarrow> nat \<Rightarrow> byte list \<Rightarrow> byte list" where
  "flip_scanlines y half stride scanline1 scanline2 mem =
     (if y < half then
        let scanline = mem_load mem scanline1 stride;
            mem1 = mem_store mem scanline1 (mem_load mem scanline2 stride);
            mem2 = mem_store mem1 scanline2 scanline
        in flip_scanlines (y + 1) half stride (scanline1 + stride) (scanline2 - stride) mem2
      else mem)"
  by pat_completeness auto
termination
  by (relation "measure (\<lambda>(y, half, stride, scanline1, scanline2, mem). half - y)") auto

declare flip_scanlines.simps [simp del]

text \<open>
  \<^verbatim>\<open>CaptureFrame\<close>. The argument \<open>blit\<close> is what \<^verbatim>\<open>BitBlt\<close> did: \<open>Some img\<close> when it
  copied the screen into the pixel array (leaving \<open>img\<close> there, bottom row first),
  \<open>None\<close> when it failed and left the array as it was. The code does not look at the
  return value of \<^verbatim>\<open>BitBlt\<close>. \<^verbatim>\<open>(m_height - 1) * m_stride\<close> is computed in
  \<^verbatim>\<open>unsigned\<close>, so it wraps at \<open>2 ^ 32\<close>.
\<close>

definition GDI_CaptureFrame ::
  "ScreenCaptureGDI \<Rightarrow> byte list option \<Rightarrow> bool \<times> ScreenCaptureGDI" where
  "GDI_CaptureFrame g blit =
     (if m_hdcMem g = 0 \<or> m_width g = 0 then (False, g)
      else
        let mem = (case blit of None \<Rightarrow> dib_memory g | Some img \<Rightarrow> img);
            scanline1 = 0;
            scanline2 = unat ((m_height g - 1) * word_of_int (m_stride g))
        in (True, g\<lparr>dib_memory :=
              flip_scanlines 0 (unat (m_height g div 2)) (nat (m_stride g))
                scanline1 scanline2 mem\<rparr>))"

definition GDI_GetFrameWidth :: "ScreenCaptureGDI \<Rightarrow> 32 word" where
  "GDI_GetFrameWidth g = m_width g"

definition GDI_GetFrameHeight :: "ScreenCaptureGDI \<Rightarrow> 32 word" where
  "GDI_GetFrameHeight g = m_height g"

definition GDI_GetFrameDepth :: "ScreenCaptureGDI \<Rightarrow> 32 word" where
  "GDI_GetFrameDepth g = m_depth g"

text \<open>\<^verbatim>\<open>unsigned GetFrameStride() const { return m_stride; }\<close> converts the \<^verbatim>\<open>int\<close>.\<close>

definition GDI_GetFrameStride :: "ScreenCaptureGDI \<Rightarrow> 32 word" where
  "GDI_GetFrameStride g = word_of_int (m_stride g)"

definition GDI_GetFrameBuffer :: "ScreenCaptureGDI \<Rightarrow> handle" where
  "GDI_GetFrameBuffer g = m_dibBits g"


text \<open>Successive \<^verbatim>\<open>CaptureFrame\<close> calls on one object: the list of their results.\<close>

fun GDI_capture_results :: "ScreenCaptureGDI \<Rightarrow> byte list option list \<Rightarrow> bool list" where
  "GDI_capture_results g [] = []"
| "GDI_capture_results g (blit # blits) =
     fst (GDI_CaptureFrame g blit) # GDI_capture_results (snd (GDI_CaptureFrame g blit)) blits"

section \<open>ScreenCapDX11.h, ScreenCapDX11.cpp\<close>

text \<open>
  An \<^verbatim>\<open>HRESULT\<close> is an integer; \<^verbatim>\<open>SUCCEEDED\<close> and \<^verbatim>\<open>FAILED\<close> test its sign, and
  \<^verbatim>\<open>E_FAIL\<close> is \<^verbatim>\<open>0x80004005\<close> read as a signed 32-bit number. The six
  \<^verbatim>\<open>DXGI_FORMAT\<close> values are those of the Windows SDK header \<^verbatim>\<open>dxgiformat.h\<close>.
\<close>

definition SUCCEEDED :: "int \<Rightarrow> bool" where
  "SUCCEEDED hr = (0 \<le> hr)"

definition FAILED :: "int \<Rightarrow> bool" where
  "FAILED hr = (hr < 0)"

definition E_FAIL :: int where
  "E_FAIL = - 2147467259"

definition DXGI_FORMAT_B8G8R8A8_UNORM :: int where
  "DXGI_FORMAT_B8G8R8A8_UNORM = 87"

definition DXGI_FORMAT_B8G8R8X8_UNORM :: int where
  "DXGI_FORMAT_B8G8R8X8_UNORM = 88"

definition DXGI_FORMAT_B8G8R8A8_TYPELESS :: int where
  "DXGI_FORMAT_B8G8R8A8_TYPELESS = 90"

definition DXGI_FORMAT_B8G8R8A8_UNORM_SRGB :: int where
  "DXGI_FORMAT_B8G8R8A8_UNORM_SRGB = 91"

definition DXGI_FORMAT_B8G8R8X8_TYPELESS :: int where
  "DXGI_FORMAT_B8G8R8X8_TYPELESS = 92"

definition DXGI_FORMAT_B8G8R8X8_UNORM_SRGB :: int where
  "DXGI_FORMAT_B8G8R8X8_UNORM_SRGB = 93"

definition IsFormat32bit :: "int \<Rightarrow> bool" where
  "IsFormat32bit fmt =
     (if fmt \<noteq> DXGI_FORMAT_B8G8R8A8_UNORM \<and>
         fmt \<noteq> DXGI_FORMAT_B8G8R8X8_UNORM \<and>
         fmt \<noteq> DXGI_FORMAT_B8G8R8A8_TYPELESS \<and>
         fmt \<noteq> DXGI_FORMAT_B8G8R8A8_UNORM_SRGB \<and>
         fmt \<noteq> DXGI_FORMAT_B8G8R8X8_TYPELESS \<and>
         fmt \<noteq> DXGI_FORMAT_B8G8R8X8_UNORM_SRGB
      then False else True)"

text \<open>
  The members of \<^verbatim>\<open>class ScreenCaptureDX11\<close>; a \<^verbatim>\<open>CComPtr\<close> is the handle it holds.
\<close>

record ScreenCaptureDX11 =
  m_device :: handle
  m_deviceContext :: handle
  m_stagingTexture :: handle
  m_outputDuplication :: handle
  m_frameBuffer :: "byte list"
  m_frameWidth :: "32 word"
  m_frameHeight :: "32 word"
  m_frameDepth :: "32 word"
  m_frameStride :: "32 word"

definition DX11_new :: ScreenCaptureDX11 where
  "DX11_new = \<lparr>m_device = 0, m_deviceContext = 0, m_stagingTexture = 0,
     m_outputDuplication = 0, m_frameBuffer = [], m_frameWidth = 0, m_frameHeight = 0,
     m_frameDepth = 0, m_frameStride = 0\<rparr>"

text \<open>
  What the backend does to the outside, in the order it does it: the calls on the
  duplication session, the device and the device context, and every reference the code
  gives up with an explicit \<^verbatim>\<open>Release()\<close>. Each function below returns the list of its
  calls. \<^verbatim>\<open>CComPtr::Release\<close> does nothing on a null pointer (\<open>release\<close>). The
  destructors of local smart pointers are not listed.
\<close>

datatype D3D_DRIVER_TYPE =
  D3D_DRIVER_TYPE_HARDWARE | D3D_DRIVER_TYPE_WARP | D3D_DRIVER_TYPE_REFERENCE

datatype dx_call =
    Call_D3D11CreateDevice D3D_DRIVER_TYPE
  | Call_DuplicateOutput
  | Call_AcquireNextFrame int
  | Call_ReleaseFrame
  | Call_Sleep
  | Call_QueryInterface
  | Call_GetDesc
  | Call_CreateTexture2D
  | Call_CopyResource
  | Call_Map
  | Call_Unmap
  | Release_desktopResource
  | Release_stagingTexture
  | Release_outputDuplication
  | Release_device
  | Release_deviceContext

definition release :: "handle \<Rightarrow> dx_call \<Rightarrow> dx_call list" where
  "release p c = (if p \<noteq> 0 then [c] else [])"

text \<open>
  The answers of the system during one \<^verbatim>\<open>Startup\<close>: for each driver type the result of
  \<^verbatim>\<open>D3D11CreateDevice\<close> with the device and the context it stored, the results of the
  four calls that lead to the output, and the result of \<^verbatim>\<open>DuplicateOutput\<close> with the
  pointer it stored.
\<close>

record dx_startup_os =
  os_D3D11CreateDevice :: "D3D_DRIVER_TYPE \<Rightarrow> int \<times> handle \<times> handle"
  os_QueryInterface_IDXGIDevice :: int
  os_GetParent :: int
  os_EnumOutputs :: int
  os_QueryInterface_IDXGIOutput1 :: int
  os_DuplicateOutput_hr :: int
  os_DuplicateOutput_duplication :: handle

text \<open>
  The answers of the system during one \<^verbatim>\<open>CaptureFrame\<close>: the outcome of the
  \<open>attempt\<close>-th \<^verbatim>\<open>IDXGIOutputDuplication::AcquireNextFrame\<close> (result, present time and
  the resource pointer it stored), of \<^verbatim>\<open>QueryInterface\<close> for the texture, the mode
  description of \<^verbatim>\<open>GetDesc\<close>, the outcome of \<^verbatim>\<open>CreateTexture2D\<close>, and that of
  \<^verbatim>\<open>Map\<close> with the row pitch and the mapped bytes.
\<close>

record acquire_result =
  acq_hr :: int
  acq_LastPresentTime :: int
  acq_resource :: handle

record dx_capture_os =
  os_AcquireNextFrame :: "nat \<Rightarrow> acquire_result"
  os_QueryInterface_hr :: int
  os_QueryInterface_texture :: handle
  os_desc_Width :: "32 word"
  os_desc_Height :: "32 word"
  os_desc_Format :: int
  os_CreateTexture2D_hr :: int
  os_CreateTexture2D_texture :: handle
  os_Map_hr :: int
  os_Map_RowPitch :: "32 word"
  os_Map_pData :: "byte list"

text \<open>\<^verbatim>\<open>InitializeDevice\<close>: the loop over the driver types, in the order of the array.\<close>

fun InitializeDevice_loop ::
  "(D3D_DRIVER_TYPE \<Rightarrow> int \<times> handle \<times> handle) \<Rightarrow> D3D_DRIVER_TYPE list \<Rightarrow>
   ScreenCaptureDX11 \<Rightarrow> dx_call list \<Rightarrow> bool \<times> ScreenCaptureDX11 \<times> dx_call list" where
  "InitializeDevice_loop os [] d calls = (False, d, calls)"
| "InitializeDevice_loop os (driver # drivers) d calls =
     (let hr = fst (os driver);
          d1 = d\<lparr>m_device := fst (snd (os driver)),
                  m_deviceContext := snd (snd (os driver))\<rparr>;
          calls1 = calls @ [Call_D3D11CreateDevice driver]
      in if SUCCEEDED hr \<and> m_device d1 \<noteq> 0 \<and> m_deviceContext d1 \<noteq> 0
         then (True, d1, calls1)
         else InitializeDevice_loop os drivers
                (d1\<lparr>m_device := 0, m_deviceContext := 0\<rparr>)
                (calls1 @ release (m_device d1) Release_device
                        @ release (m_deviceContext d1) Release_deviceContext))"

definition InitializeDevice ::
  "ScreenCaptureDX11 \<Rightarrow> dx_startup_os \<Rightarrow> bool \<times> ScreenCaptureDX11 \<times> dx_call list" where
  "InitializeDevice d os =
     InitializeDevice_loop (os_D3D11CreateDevice os)
       [D3D_DRIVER_TYPE_HARDWARE, D3D_DRIVER_TYPE_WARP, D3D_DRIVER_TYPE_REFERENCE] d []"

definition StartOutputDuplication ::
  "ScreenCaptureDX11 \<Rightarrow> dx_startup_os \<Rightarrow> bool \<times> ScreenCaptureDX11 \<times> dx_call list" where
  "StartOutputDuplication d os =
     (if FAILED (os_QueryInterface_IDXGIDevice os) then (False, d, [])
      else if FAILED (os_GetParent os) then (False, d, [])
      else if FAILED (os_EnumOutputs os) then (False, d, [])
      else if FAILED (os_QueryInterface_IDXGIOutput1 os) then (False, d, [])
      else
        let d1 = d\<lparr>m_outputDuplication := os_DuplicateOutput_duplication os\<rparr>
        in if FAILED (os_DuplicateOutput_hr os) then (False, d1, [Call_DuplicateOutput])
           else if m_outputDuplication d1 = 0 then (False, d1, [Call_DuplicateOutput])
           else (True, d1, [Call_DuplicateOutput]))"

definition DX11_Startup ::
  "ScreenCaptureDX11 \<Rightarrow> dx_startup_os \<Rightarrow> bool \<times> ScreenCaptureDX11 \<times> dx_call list" where
  "DX11_Startup d os =
     (let d0 = d\<lparr>m_frameBuffer := [], m_frameWidth := 0, m_frameHeight := 0,
                  m_frameDepth := 0, m_frameStride := 0\<rparr>;
          init = InitializeDevice d0 os
      in if \<not> fst init then (False, fst (snd init), snd (snd init))
         else
           let dup = StartOutputDuplication (fst (snd init)) os
           in if \<not> fst dup then (False, fst (snd dup), snd (snd init) @ snd (snd dup))
              else (True, fst (snd dup), snd (snd init) @ snd (snd dup)))"

definition DX11_Shutdown :: "ScreenCaptureDX11 \<Rightarrow> ScreenCaptureDX11 \<times> dx_call list" where
  "DX11_Shutdown d =
     (d\<lparr>m_stagingTexture := 0, m_outputDuplication := 0, m_device := 0,
         m_deviceContext := 0, m_frameBuffer := []\<rparr>,
      release (m_stagingTexture d) Release_stagingTexture
      @ release (m_outputDuplication d) Release_outputDuplication
      @ release (m_device d) Release_device
      @ release (m_deviceContext d) Release_deviceContext)"

text \<open>
  The retry loop of \<^verbatim>\<open>AcquireNextFrame\<close>,
  \<^verbatim>\<open>for (int attempt = 0; attempt < 4; attempt++)\<close>, with the variables \<open>hr\<close> and
  \<open>desktopResource\<close> it leaves behind. The system stores the resource pointer of its
  answer in \<open>desktopResource\<close>.
\<close>

function AcquireNextFrame_loop ::
  "(nat \<Rightarrow> acquire_result) \<Rightarrow> nat \<Rightarrow> int \<Rightarrow> handle \<Rightarrow> dx_call list \<Rightarrow>
   int \<times> handle \<times> dx_call list" where
  "AcquireNextFrame_loop os attempt hr desktopResource calls =
     (if attempt < 4 then
        let hr1 = acq_hr (os attempt);
            desktopResource1 = acq_resource (os attempt);
            calls1 = calls @ [Call_AcquireNextFrame hr1]
        in if SUCCEEDED hr1 \<and> acq_LastPresentTime (os attempt) = 0 then
             AcquireNextFrame_loop os (attempt + 1) hr1 0
               (calls1 @ release desktopResource1 Release_desktopResource
                       @ [Call_ReleaseFrame, Call_Sleep])
           else if SUCCEEDED hr1 \<and> desktopResource1 = 0 then
             AcquireNextFrame_loop os (attempt + 1) hr1 desktopResource1
               (calls1 @ [Call_ReleaseFrame, Call_Sleep])
           else (hr1, desktopResource1, calls1)
      else (hr, desktopResource, calls))"
  by pat_completeness auto
termination
  by (relation "measure (\<lambda>(os, attempt, hr, desktopResource, calls). 4 - attempt)") auto

declare AcquireNextFrame_loop.simps [simp del]

text \<open>
  \<^verbatim>\<open>AcquireNextFrame\<close> returns its result and the pointer it leaves in
  \<open>acquiredDesktopImage\<close>, which is null when the function returns before
  \<^verbatim>\<open>QueryInterface\<close>.
\<close>

definition DX11_AcquireNextFrame :: "dx_capture_os \<Rightarrow> bool \<times> handle \<times> dx_call list" where
  "DX11_AcquireNextFrame os =
     (let loop = AcquireNextFrame_loop (os_AcquireNextFrame os) 0 E_FAIL 0 [];
          hr = fst loop;
          desktopResource = fst (snd loop);
          calls = snd (snd loop)
      in if FAILED hr \<or> desktopResource = 0 then (False, 0, calls)
         else
           let calls1 = calls @ [Call_QueryInterface, Release_desktopResource]
           in if FAILED (os_QueryInterface_hr os)
              then (False, os_QueryInterface_texture os, calls1)
              else (True, os_QueryInterface_texture os, calls1))"

definition CreateStagingTexture :: "dx_capture_os \<Rightarrow> bool \<times> handle \<times> dx_call list" where
  "CreateStagingTexture os =
     (if FAILED (os_CreateTexture2D_hr os) \<or> os_CreateTexture2D_texture os = 0
      then (False, os_CreateTexture2D_texture os, [Call_CreateTexture2D])
      else (True, os_CreateTexture2D_texture os, [Call_CreateTexture2D]))"

text \<open>
  \<^verbatim>\<open>CopyStagingTextureToMemory\<close>. The staging texture describes itself with the width
  and height it was created with, those of the mode description.
  \<^verbatim>\<open>m_frameStride * m_frameHeight\<close> is an \<^verbatim>\<open>unsigned\<close> product; \<^verbatim>\<open>resize\<close> keeps the
  old bytes and fills with zeros; \<^verbatim>\<open>memcpy\<close> then copies that many mapped bytes.
\<close>

definition resize :: "byte list \<Rightarrow> nat \<Rightarrow> byte list" where
  "resize v n = take n v @ replicate (n - length v) 0"

definition CopyStagingTextureToMemory ::
  "ScreenCaptureDX11 \<Rightarrow> dx_capture_os \<Rightarrow> bool \<times> ScreenCaptureDX11 \<times> dx_call list" where
  "CopyStagingTextureToMemory d os =
     (if m_deviceContext d = 0 then (False, d, [])
      else if FAILED (os_Map_hr os) then (False, d, [Call_Map])
      else
        let d1 = d\<lparr>m_frameWidth := os_desc_Width os, m_frameHeight := os_desc_Height os,
                     m_frameStride := os_Map_RowPitch os, m_frameDepth := 32\<rparr>;
            n = unat (m_frameStride d1 * m_frameHeight d1);
            d2 = d1\<lparr>m_frameBuffer :=
                       mem_store (resize (m_frameBuffer d1) n) 0 (take n (os_Map_pData os))\<rparr>
        in (True, d2, [Call_Map, Call_Unmap]))"

definition DX11_CaptureFrame ::
  "ScreenCaptureDX11 \<Rightarrow> dx_capture_os \<Rightarrow> bool \<times> ScreenCaptureDX11 \<times> dx_call list" where
  "DX11_CaptureFrame d os =
     (let d1 = d\<lparr>m_frameWidth := 0, m_frameHeight := 0, m_frameStride := 0,
                  m_frameDepth := 0\<rparr>
      in if m_device d1 = 0 \<or> m_deviceContext d1 = 0 \<or> m_outputDuplication d1 = 0
         then (False, d1, [])
         else
           let acq = DX11_AcquireNextFrame os;
               cacquiredDesktopImage = fst (snd acq);
               calls1 = snd (snd acq)
           in if \<not> fst acq \<or> cacquiredDesktopImage = 0 then (False, d1, calls1)
              else
                let calls2 = calls1 @ [Call_GetDesc]
                in if \<not> IsFormat32bit (os_desc_Format os) then (False, d1, calls2)
                   else
                     let st = CreateStagingTexture os;
                         d2 = d1\<lparr>m_stagingTexture := fst (snd st)\<rparr>;
                         calls3 = calls2 @ snd (snd st)
                     in if \<not> fst st then (False, d2, calls3 @ [Call_ReleaseFrame])
                        else
                          let cp = CopyStagingTextureToMemory d2 os;
                              d3 = (fst (snd cp))\<lparr>m_stagingTexture := 0\<rparr>
                          in (fst cp, d3,
                              calls3 @ [Call_CopyResource] @ snd (snd cp)
                                @ [Release_stagingTexture, Call_ReleaseFrame]))"

definition DX11_GetFrameWidth :: "ScreenCaptureDX11 \<Rightarrow> 32 word" where
  "DX11_GetFrameWidth d = m_frameWidth d"

definition DX11_GetFrameHeight :: "ScreenCaptureDX11 \<Rightarrow> 32 word" where
  "DX11_GetFrameHeight d = m_frameHeight d"

definition DX11_GetFrameDepth :: "ScreenCaptureDX11 \<Rightarrow> 32 word" where
  "DX11_GetFrameDepth d = m_frameDepth d"

definition DX11_GetFrameStride :: "ScreenCaptureDX11 \<Rightarrow> 32 word" where
  "DX11_GetFrameStride d = m_frameStride d"

text \<open>
  Reading a list of calls. \<open>frame_held\<close> follows the duplication session: a successful
  \<^verbatim>\<open>AcquireNextFrame\<close> hands a frame to the caller, who holds it until
  \<^verbatim>\<open>ReleaseFrame\<close>. \<open>acquire_attempts\<close> and \<open>frame_releases\<close> count calls.
\<close>

fun frame_held :: "bool \<Rightarrow> dx_call list \<Rightarrow> bool" where
  "frame_held held [] = held"
| "frame_held held (Call_AcquireNextFrame hr # calls) =
     frame_held (held \<or> SUCCEEDED hr) calls"
| "frame_held held (Call_ReleaseFrame # calls) = frame_held False calls"
| "frame_held held (c # calls) = frame_held held calls"

fun is_AcquireNextFrame :: "dx_call \<Rightarrow> bool" where
  "is_AcquireNextFrame (Call_AcquireNextFrame hr) = True"
| "is_AcquireNextFrame c = False"

definition acquire_attempts :: "dx_call list \<Rightarrow> nat" where
  "acquire_attempts calls = length (filter is_AcquireNextFrame calls)"

definition frame_releases :: "dx_call list \<Rightarrow> nat" where
  "frame_releases calls = length (filter (\<lambda>c. c = Call_ReleaseFrame) calls)"

text \<open>
  The two outcomes after which the loop goes on: the call succeeded and the present
  time is zero, or the call succeeded and stored no resource.
\<close>

definition retry_outcome :: "acquire_result \<Rightarrow> bool" where
  "retry_outcome r =
     (SUCCEEDED (acq_hr r) \<and> (acq_LastPresentTime r = 0 \<or> acq_resource r = 0))"

text \<open>Successive \<^verbatim>\<open>CaptureFrame\<close> calls on one object: their results, the last state.\<close>

fun DX11_capture_run ::
  "ScreenCaptureDX11 \<Rightarrow> dx_capture_os list \<Rightarrow> bool list \<times> ScreenCaptureDX11" where
  "DX11_capture_run d [] = ([], d)"
| "DX11_capture_run d (os # oss) =
     (let r = DX11_CaptureFrame d os;
          rest = DX11_capture_run (fst (snd r)) oss
      in (fst r # fst rest, snd rest))"

section \<open>ScreenCap.h\<close>

datatype ScreenCaptureMode =
  ScreenCaptureMode_Invalid | ScreenCaptureMode_GDI | ScreenCaptureMode_DX11

text \<open>
  The members of \<^verbatim>\<open>class ScreenCapture\<close>. A backend pointer is \<open>None\<close> when null and
  holds the object it points to otherwise; \<^verbatim>\<open>delete\<close> runs the destructor of the
  backend and the object is gone.
\<close>

record ScreenCapture =
  m_mode :: ScreenCaptureMode
  m_capgdi :: "ScreenCaptureGDI option"
  m_capdx11 :: "ScreenCaptureDX11 option"

definition ScreenCapture_new :: ScreenCapture where
  "ScreenCapture_new =
     \<lparr>m_mode = ScreenCaptureMode_Invalid, m_capgdi = None, m_capdx11 = None\<rparr>"

definition ScreenCapture_Shutdown :: "ScreenCapture \<Rightarrow> ScreenCapture" where
  "ScreenCapture_Shutdown sc =
     sc\<lparr>m_capgdi := None, m_capdx11 := None, m_mode := ScreenCaptureMode_Invalid\<rparr>"

definition ScreenCapture_Startup ::
  "ScreenCapture \<Rightarrow> ScreenCaptureMode \<Rightarrow> gdi_os \<Rightarrow> dx_startup_os \<Rightarrow> bool \<times> ScreenCapture" where
  "ScreenCapture_Startup sc mode gos dos =
     (let sc1 = (if m_mode sc \<noteq> ScreenCaptureMode_Invalid then ScreenCapture_Shutdown sc
                 else sc);
          sc2 = sc1\<lparr>m_mode := mode\<rparr>
      in if mode = ScreenCaptureMode_GDI then
           (fst (GDI_Startup GDI_new gos),
            sc2\<lparr>m_capgdi := Some (snd (GDI_Startup GDI_new gos))\<rparr>)
         else if mode = ScreenCaptureMode_DX11 then
           (fst (DX11_Startup DX11_new dos),
            sc2\<lparr>m_capdx11 := Some (fst (snd (DX11_Startup DX11_new dos)))\<rparr>)
         else (False, sc2))"

definition ScreenCapture_CaptureFrame ::
  "ScreenCapture \<Rightarrow> byte list option \<Rightarrow> dx_capture_os \<Rightarrow> bool \<times> ScreenCapture" where
  "ScreenCapture_CaptureFrame sc blit os =
     (case m_capgdi sc of
        Some g \<Rightarrow>
          (fst (GDI_CaptureFrame g blit), sc\<lparr>m_capgdi := Some (snd (GDI_CaptureFrame g blit))\<rparr>)
      | None \<Rightarrow>
          (case m_capdx11 sc of
             Some d \<Rightarrow>
               (fst (DX11_CaptureFrame d os),
                sc\<lparr>m_capdx11 := Some (fst (snd (DX11_CaptureFrame d os)))\<rparr>)
           | None \<Rightarrow> (False, sc)))"

definition ScreenCapture_GetFrameWidth :: "ScreenCapture \<Rightarrow> 32 word" where
  "ScreenCapture_GetFrameWidth sc =
     (case m_capgdi sc of Some g \<Rightarrow> GDI_GetFrameWidth g
      | None \<Rightarrow> (case m_capdx11 sc of Some d \<Rightarrow> DX11_GetFrameWidth d | None \<Rightarrow> 0))"

definition ScreenCapture_GetFrameHeight :: "ScreenCapture \<Rightarrow> 32 word" where
  "ScreenCapture_GetFrameHeight sc =
     (case m_capgdi sc of Some g \<Rightarrow> GDI_GetFrameHeight g
      | None \<Rightarrow> (case m_capdx11 sc of Some d \<Rightarrow> DX11_GetFrameHeight d | None \<Rightarrow> 0))"

definition ScreenCapture_GetFrameDepth :: "ScreenCapture \<Rightarrow> 32 word" where
  "ScreenCapture_GetFrameDepth sc =
     (case m_capgdi sc of Some g \<Rightarrow> GDI_GetFrameDepth g
      | None \<Rightarrow> (case m_capdx11 sc of Some d \<Rightarrow> DX11_GetFrameDepth d | None \<Rightarrow> 0))"

definition ScreenCapture_GetFrameStride :: "ScreenCapture \<Rightarrow> 32 word" where
  "ScreenCapture_GetFrameStride sc =
     (case m_capgdi sc of Some g \<Rightarrow> GDI_GetFrameStride g
      | None \<Rightarrow> (case m_capdx11 sc of Some d \<Rightarrow> DX11_GetFrameStride d | None \<Rightarrow> 0))"

text \<open>Successive \<^verbatim>\<open>CaptureFrame\<close> calls on one session: their results, the last state.\<close>

fun ScreenCapture_capture_run ::
  "ScreenCapture \<Rightarrow> (byte list option \<times> dx_capture_os) list \<Rightarrow> bool list \<times> ScreenCapture" where
  "ScreenCapture_capture_run sc [] = ([], sc)"
| "ScreenCapture_capture_run sc (a # args) =
     (let r = ScreenCapture_CaptureFrame sc (fst a) (snd a);
          rest = ScreenCapture_capture_run (snd r) args
      in (fst r # fst rest, snd rest))"

text \<open>
  The states of a session that the operations can reach: whenever the mode is invalid,
  no backend is installed.
\<close>

definition ScreenCapture_consistent :: "ScreenCapture \<Rightarrow> bool" where
  "ScreenCapture_consistent sc =
     (if m_mode sc = ScreenCaptureMode_Invalid
      then m_capgdi sc = None \<and> m_capdx11 sc = None else True)"

text \<open>The four numbers of a frame, as the accessors return them.\<close>

definition GDI_metadata :: "ScreenCaptureGDI \<Rightarrow> 32 word \<times> 32 word \<times> 32 word \<times> 32 word" where
  "GDI_metadata g =
     (GDI_GetFrameWidth g, GDI_GetFrameHeight g, GDI_GetFrameDepth g, GDI_GetFrameStride g)"

definition DX11_metadata :: "ScreenCaptureDX11 \<Rightarrow> 32 word \<times> 32 word \<times> 32 word \<times> 32 word" where
  "DX11_metadata d =
     (DX11_GetFrameWidth d, DX11_GetFrameHeight d, DX11_GetFrameDepth d,
      DX11_GetFrameStride d)"

definition ScreenCapture_metadata ::
  "ScreenCapture \<Rightarrow> 32 word \<times> 32 word \<times> 32 word \<times> 32 word" where
  "ScreenCapture_metadata sc =
     (ScreenCapture_GetFrameWidth sc, ScreenCapture_GetFrameHeight sc,
      ScreenCapture_GetFrameDepth sc, ScreenCapture_GetFrameStride sc)"

section \<open>The release order in the words of the specification\<close>

text \<open>
  The specification lists the releases of \<^verbatim>\<open>ScreenCaptureDX11::Shutdown\<close> as staging
  texture, duplication session, device context, device. \<open>spec_Shutdown_calls\<close> is that
  list, to be compared with the calls \<open>DX11_Shutdown\<close> makes.
\<close>

definition spec_Shutdown_calls :: "ScreenCaptureDX11 \<Rightarrow> dx_call list" where
  "spec_Shutdown_calls d =
     release (m_stagingTexture d) Release_stagingTexture
     @ release (m_outputDuplication d) Release_outputDuplication
     @ release (m_deviceContext d) Release_deviceContext
     @ release (m_device d) Release_device"

section \<open>Concrete inputs\<close>

text \<open>
  A single display of 1 by 3 pixels on which every call of \<^verbatim>\<open>Startup\<close> succeeds, the
  same display when \<^verbatim>\<open>CreateCompatibleDC\<close> returns null, and a blitted image whose
  bytes are numbered from 1, the bottom scanline first.
\<close>

definition gdi_os_1x3 :: gdi_os where
  "gdi_os_1x3 = \<lparr>cx_screen = 1, cy_screen = 3, c_monitors = 1, cx_virtualscreen = 1,
     cy_virtualscreen = 3, compatible_dc = 11, dib_section = 12, dib_bits = 13,
     dib_initial = replicate 12 0, old_bitmap = 14\<rparr>"

definition gdi_os_no_dc :: gdi_os where
  "gdi_os_no_dc = gdi_os_1x3\<lparr>compatible_dc := 0\<rparr>"

definition image_1x3 :: "byte list" where
  "image_1x3 = [1, 2, 3, 4, 5, 6, 7, 8, 9, 10, 11, 12]"

text \<open>
  A system on which the hardware driver and the duplication session are available, and
  the backend it leaves after \<^verbatim>\<open>Startup\<close>.
\<close>

definition dx_startup_ok :: dx_startup_os where
  "dx_startup_ok = \<lparr>os_D3D11CreateDevice = (\<lambda>driver. (0, 21, 22)),
     os_QueryInterface_IDXGIDevice = 0, os_GetParent = 0, os_EnumOutputs = 0,
     os_QueryInterface_IDXGIOutput1 = 0, os_DuplicateOutput_hr = 0,
     os_DuplicateOutput_duplication = 23\<rparr>"

definition dx11_started :: ScreenCaptureDX11 where
  "dx11_started = fst (snd (DX11_Startup DX11_new dx_startup_ok))"

text \<open>The same system when no driver type yields a device.\<close>

definition dx_startup_no_driver :: dx_startup_os where
  "dx_startup_no_driver =
     dx_startup_ok\<lparr>os_D3D11CreateDevice := (\<lambda>driver. (E_FAIL, 0, 0))\<rparr>"

text \<open>
  Three outcomes of an acquisition: a composited frame, a frame whose present time is
  still zero, and \<^verbatim>\<open>DXGI_ERROR_WAIT_TIMEOUT\<close> (\<^verbatim>\<open>0x887A0027\<close> as a signed number).
\<close>

definition frame_ready :: acquire_result where
  "frame_ready = \<lparr>acq_hr = 0, acq_LastPresentTime = 1, acq_resource = 31\<rparr>"

definition frame_pending :: acquire_result where
  "frame_pending = \<lparr>acq_hr = 0, acq_LastPresentTime = 0, acq_resource = 31\<rparr>"

definition frame_timeout :: acquire_result where
  "frame_timeout = \<lparr>acq_hr = - 2005270489, acq_LastPresentTime = 0, acq_resource = 0\<rparr>"

text \<open>
  Three captures: a 2 by 2 frame in \<^verbatim>\<open>DXGI_FORMAT_B8G8R8A8_UNORM\<close> (87) that is ready at
  once; the same frame reported as \<^verbatim>\<open>DXGI_FORMAT_R8G8B8A8_UNORM\<close> (28); and two pending
  frames followed by a timeout. \<open>dx11_after_frame\<close> is the backend after the first.
\<close>

definition dx_capture_bgra :: dx_capture_os where
  "dx_capture_bgra = \<lparr>os_AcquireNextFrame = (\<lambda>attempt. frame_ready),
     os_QueryInterface_hr = 0, os_QueryInterface_texture = 32,
     os_desc_Width = 2, os_desc_Height = 2, os_desc_Format = 87,
     os_CreateTexture2D_hr = 0, os_CreateTexture2D_texture = 33,
     os_Map_hr = 0, os_Map_RowPitch = 8,
     os_Map_pData = [1, 2, 3, 4, 5, 6, 7, 8, 9, 10, 11, 12, 13, 14, 15, 16]\<rparr>"

definition dx_capture_rgba :: dx_capture_os where
  "dx_capture_rgba = dx_capture_bgra\<lparr>os_desc_Format := 28\<rparr>"

definition dx_capture_late_timeout :: dx_capture_os where
  "dx_capture_late_timeout = dx_capture_bgra\<lparr>os_AcquireNextFrame :=
     (\<lambda>attempt. if attempt < 2 then frame_pending else frame_timeout)\<rparr>"

definition dx11_after_frame :: ScreenCaptureDX11 where
  "dx11_after_frame = fst (snd (DX11_CaptureFrame dx11_started dx_capture_bgra))"

section \<open>Properties of the GDI backend\<close>

lemma GDI_CaptureFrame_keeps_started:
  "m_hdcMem (snd (GDI_CaptureFrame g blit)) = m_hdcMem g \<and>
   m_width (snd (GDI_CaptureFrame g blit)) = m_width g"
  by (simp add: GDI_CaptureFrame_def Let_def)












lemma GDI_capture_results_started:
  "m_hdcMem g \<noteq> 0 \<Longrightarrow> m_width g \<noteq> 0 \<Longrightarrow>
   GDI_capture_results g blits = replicate (length blits) True"
proof (induction blits arbitrary: g)
  case Nil
  show ?case by simp
next
  case (Cons blit blits)
  have "fst (GDI_CaptureFrame g blit)"
    using Cons.prems by (simp add: GDI_CaptureFrame_def Let_def)
  moreover have "GDI_capture_results (snd (GDI_CaptureFrame g blit)) blits =
      replicate (length blits) True"
    using Cons.prems by (intro Cons.IH) (simp_all add: GDI_CaptureFrame_keeps_started)
  ultimately show ?case by simp
qed

lemma GDI_Startup_hdcMem:
  "fst (GDI_Startup g os) \<Longrightarrow> m_hdcMem (snd (GDI_Startup g os)) \<noteq> 0"
  by (simp add: GDI_Startup_def Let_def split: if_splits)

text \<open>
  Claim C10. \<^verbatim>\<open>CaptureFrame\<close> of the GDI backend returns false exactly when the
  session is not started, that is when the memory display context is absent or the
  width is zero; what \<^verbatim>\<open>BitBlt\<close> did (the argument \<open>blit\<close>, \<open>None\<close> for a failed
  copy) has no influence on the result. A started session stays started, so every
  call of a sequence returns true; and a \<^verbatim>\<open>Startup\<close> that returned true with a
  non-zero width leaves a started session.
\<close>

theorem GDI_CaptureFrame_fails_iff_not_started:
  "(fst (GDI_CaptureFrame g blit) = False \<longleftrightarrow> m_hdcMem g = 0 \<or> m_width g = 0) \<and>
   (m_hdcMem g \<noteq> 0 \<and> m_width g \<noteq> 0 \<longrightarrow>
      GDI_capture_results g blits = replicate (length blits) True) \<and>
   (fst (GDI_Startup g0 os) \<and> m_width (snd (GDI_Startup g0 os)) \<noteq> 0 \<longrightarrow>
      fst (GDI_CaptureFrame (snd (GDI_Startup g0 os)) blit))"
proof (intro conjI impI)
  show "fst (GDI_CaptureFrame g blit) = False \<longleftrightarrow> m_hdcMem g = 0 \<or> m_width g = 0"
    by (simp add: GDI_CaptureFrame_def Let_def)
next
  assume "m_hdcMem g \<noteq> 0 \<and> m_width g \<noteq> 0"
  then show "GDI_capture_results g blits = replicate (length blits) True"
    by (simp add: GDI_capture_results_started)
next
  assume a: "fst (GDI_Startup g0 os) \<and> m_width (snd (GDI_Startup g0 os)) \<noteq> 0"
  then have "m_hdcMem (snd (GDI_Startup g0 os)) \<noteq> 0"
    by (simp add: GDI_Startup_hdcMem)
  with a show "fst (GDI_CaptureFrame (snd (GDI_Startup g0 os)) blit)"
    by (simp add: GDI_CaptureFrame_def Let_def)
qed


lemma align4_4: "align4 4 = 4"
  by (subst align4.simps) simp

lemma GDI_Startup_1x3:
  "GDI_Startup GDI_new gdi_os_1x3 =
     (True, \<lparr>m_width = 1, m_height = 3, m_depth = 32, m_stride = 4, m_hdcMem = 11,
        m_dibSection = 12, m_dibOld = 14, m_dibBits = 13, dib_memory = replicate 12 0\<rparr>)"
  by (simp add: GDI_Startup_def GDI_new_def gdi_os_1x3_def Let_def align4_4)




theorem GDI_CaptureFrame_fails_iff_not_started_witness:
  "fst (GDI_CaptureFrame (snd (GDI_Startup GDI_new gdi_os_1x3)) None) \<and>
   GDI_capture_results (snd (GDI_Startup GDI_new gdi_os_1x3)) [None, Some image_1x3, None]
     = [True, True, True]"
  using GDI_CaptureFrame_fails_iff_not_started
    [of "snd (GDI_Startup GDI_new gdi_os_1x3)" None "[None, Some image_1x3, None]"
      GDI_new gdi_os_1x3]
  by (simp add: GDI_Startup_1x3)

section \<open>Properties of the DX11 backend\<close>

lemma acquire_attempts_append [simp]:
  "acquire_attempts (xs @ ys) = acquire_attempts xs + acquire_attempts ys"
  by (simp add: acquire_attempts_def)

lemma acquire_attempts_Cons [simp]:
  "acquire_attempts (c # cs) = (if is_AcquireNextFrame c then 1 else 0) + acquire_attempts cs"
  by (simp add: acquire_attempts_def)

lemma acquire_attempts_Nil [simp]: "acquire_attempts [] = 0"
  by (simp add: acquire_attempts_def)

lemma acquire_attempts_release [simp]:
  "acquire_attempts (release p Release_desktopResource) = 0"
  by (simp add: release_def)

lemma frame_releases_append [simp]:
  "frame_releases (xs @ ys) = frame_releases xs + frame_releases ys"
  by (simp add: frame_releases_def)

lemma frame_releases_Cons [simp]:
  "frame_releases (c # cs) = (if c = Call_ReleaseFrame then 1 else 0) + frame_releases cs"
  by (simp add: frame_releases_def)

lemma frame_releases_Nil [simp]: "frame_releases [] = 0"
  by (simp add: frame_releases_def)

lemma frame_releases_release [simp]:
  "frame_releases (release p Release_desktopResource) = 0"
  by (simp add: release_def)

lemma AcquireNextFrame_loop_end:
  "\<not> attempt < 4 \<Longrightarrow> AcquireNextFrame_loop os attempt hr res calls = (hr, res, calls)"
  by (subst AcquireNextFrame_loop.simps) simp

lemma AcquireNextFrame_loop_stop:
  "attempt < 4 \<Longrightarrow> \<not> retry_outcome (os attempt) \<Longrightarrow>
   AcquireNextFrame_loop os attempt hr res calls =
     (acq_hr (os attempt), acq_resource (os attempt),
      calls @ [Call_AcquireNextFrame (acq_hr (os attempt))])"
  by (subst AcquireNextFrame_loop.simps) (auto simp: retry_outcome_def Let_def)

lemma AcquireNextFrame_loop_retry:
  "attempt < 4 \<Longrightarrow> retry_outcome (os attempt) \<Longrightarrow>
   AcquireNextFrame_loop os attempt hr res calls =
     AcquireNextFrame_loop os (attempt + 1) (acq_hr (os attempt)) 0
       (calls @ [Call_AcquireNextFrame (acq_hr (os attempt))]
          @ (if acq_LastPresentTime (os attempt) = 0
             then release (acq_resource (os attempt)) Release_desktopResource else [])
          @ [Call_ReleaseFrame, Call_Sleep])"
  by (subst AcquireNextFrame_loop.simps) (auto simp: retry_outcome_def Let_def)

lemma AcquireNextFrame_loop_attempts:
  "attempt \<le> 4 \<Longrightarrow>
   acquire_attempts (snd (snd (AcquireNextFrame_loop os attempt hr res calls))) + attempt
     \<le> acquire_attempts calls + 4"
proof (induction "4 - attempt" arbitrary: attempt hr res calls)
  case 0
  then show ?case by (simp add: AcquireNextFrame_loop_end)
next
  case (Suc n)
  then have lt: "attempt < 4" and n: "n = 4 - (attempt + 1)" and le: "attempt + 1 \<le> 4"
    by simp_all
  show ?case
  proof (cases "retry_outcome (os attempt)")
    case True
    let ?calls1 = "calls @ [Call_AcquireNextFrame (acq_hr (os attempt))]
          @ (if acq_LastPresentTime (os attempt) = 0
             then release (acq_resource (os attempt)) Release_desktopResource else [])
          @ [Call_ReleaseFrame, Call_Sleep]"
    have step: "AcquireNextFrame_loop os attempt hr res calls =
        AcquireNextFrame_loop os (attempt + 1) (acq_hr (os attempt)) 0 ?calls1"
      using lt True by (rule AcquireNextFrame_loop_retry)
    have "acquire_attempts (snd (snd (AcquireNextFrame_loop os (attempt + 1)
            (acq_hr (os attempt)) 0 ?calls1))) + (attempt + 1)
          \<le> acquire_attempts ?calls1 + 4"
      using n le by (rule Suc.hyps(1))
    moreover have "acquire_attempts ?calls1 = acquire_attempts calls + 1"
      by simp
    ultimately show ?thesis
      unfolding step by linarith
  next
    case False
    have step: "AcquireNextFrame_loop os attempt hr res calls =
        (acq_hr (os attempt), acq_resource (os attempt),
         calls @ [Call_AcquireNextFrame (acq_hr (os attempt))])"
      using lt False by (rule AcquireNextFrame_loop_stop)
    show ?thesis
      unfolding step using lt by simp
  qed
qed

text \<open>The loop stops at the first outcome that is not a retry outcome.\<close>

lemma AcquireNextFrame_loop_stops:
  assumes "attempt \<le> k" and "k < 4"
    and "\<forall>j. attempt \<le> j \<and> j < k \<longrightarrow> retry_outcome (os j)"
    and "\<not> retry_outcome (os k)"
  shows "fst (AcquireNextFrame_loop os attempt hr res calls) = acq_hr (os k) \<and>
     fst (snd (AcquireNextFrame_loop os attempt hr res calls)) = acq_resource (os k) \<and>
     acquire_attempts (snd (snd (AcquireNextFrame_loop os attempt hr res calls))) + attempt
       = acquire_attempts calls + k + 1 \<and>
     frame_releases (snd (snd (AcquireNextFrame_loop os attempt hr res calls))) + attempt
       = frame_releases calls + k"
  using assms
proof (induction "k - attempt" arbitrary: attempt hr res calls)
  case 0
  then have eq: "attempt = k" and lt: "attempt < 4" by simp_all
  with 0 have stop: "\<not> retry_outcome (os attempt)" by simp
  have step: "AcquireNextFrame_loop os attempt hr res calls =
      (acq_hr (os attempt), acq_resource (os attempt),
       calls @ [Call_AcquireNextFrame (acq_hr (os attempt))])"
    using lt stop by (rule AcquireNextFrame_loop_stop)
  show ?case
    unfolding step using eq by simp
next
  case (Suc n)
  then have lt: "attempt < 4" and ltk: "attempt < k" by simp_all
  with Suc.prems have retry: "retry_outcome (os attempt)" by simp
  have n: "n = k - (attempt + 1)" using Suc.hyps(2) by simp
  have le: "attempt + 1 \<le> k" using ltk by simp
  have rest: "\<forall>j. attempt + 1 \<le> j \<and> j < k \<longrightarrow> retry_outcome (os j)"
    using Suc.prems by simp
  let ?calls1 = "calls @ [Call_AcquireNextFrame (acq_hr (os attempt))]
        @ (if acq_LastPresentTime (os attempt) = 0
           then release (acq_resource (os attempt)) Release_desktopResource else [])
        @ [Call_ReleaseFrame, Call_Sleep]"
  let ?next = "AcquireNextFrame_loop os (attempt + 1) (acq_hr (os attempt)) 0 ?calls1"
  have step: "AcquireNextFrame_loop os attempt hr res calls = ?next"
    using lt retry by (rule AcquireNextFrame_loop_retry)
  have IH: "fst ?next = acq_hr (os k) \<and> fst (snd ?next) = acq_resource (os k) \<and>
     acquire_attempts (snd (snd ?next)) + (attempt + 1) = acquire_attempts ?calls1 + k + 1 \<and>
     frame_releases (snd (snd ?next)) + (attempt + 1) = frame_releases ?calls1 + k"
    using n le Suc.prems(2) rest Suc.prems(4) by (rule Suc.hyps(1))
  moreover have "acquire_attempts ?calls1 = acquire_attempts calls + 1"
    and "frame_releases ?calls1 = frame_releases calls + 1"
    by simp_all
  ultimately show ?case
    unfolding step by simp
qed

text \<open>Four retry outcomes use up the loop.\<close>

lemma AcquireNextFrame_loop_exhausted:
  assumes "attempt < 4"
    and "\<forall>j. attempt \<le> j \<and> j < 4 \<longrightarrow> retry_outcome (os j)"
  shows "SUCCEEDED (fst (AcquireNextFrame_loop os attempt hr res calls)) \<and>
     fst (snd (AcquireNextFrame_loop os attempt hr res calls)) = 0 \<and>
     acquire_attempts (snd (snd (AcquireNextFrame_loop os attempt hr res calls))) + attempt
       = acquire_attempts calls + 4 \<and>
     frame_releases (snd (snd (AcquireNextFrame_loop os attempt hr res calls))) + attempt
       = frame_releases calls + 4"
  using assms
proof (induction "3 - attempt" arbitrary: attempt hr res calls)
  case 0
  then have eq: "attempt = 3" and lt: "attempt < 4" by simp_all
  with 0 have retry: "retry_outcome (os attempt)" by simp
  then have ok: "SUCCEEDED (acq_hr (os attempt))" by (simp add: retry_outcome_def)
  let ?calls1 = "calls @ [Call_AcquireNextFrame (acq_hr (os attempt))]
        @ (if acq_LastPresentTime (os attempt) = 0
           then release (acq_resource (os attempt)) Release_desktopResource else [])
        @ [Call_ReleaseFrame, Call_Sleep]"
  have "AcquireNextFrame_loop os attempt hr res calls =
      AcquireNextFrame_loop os (attempt + 1) (acq_hr (os attempt)) 0 ?calls1"
    using lt retry by (rule AcquireNextFrame_loop_retry)
  also have "\<dots> = (acq_hr (os attempt), 0, ?calls1)"
    using eq by (intro AcquireNextFrame_loop_end) simp
  finally have step: "AcquireNextFrame_loop os attempt hr res calls =
      (acq_hr (os attempt), 0, ?calls1)" .
  show ?case
    unfolding step using eq ok by simp
next
  case (Suc n)
  then have lt: "attempt < 4" and lt': "attempt + 1 < 4" by simp_all
  with Suc.prems have retry: "retry_outcome (os attempt)" by simp
  have n: "n = 3 - (attempt + 1)" using Suc.hyps(2) by simp
  have rest: "\<forall>j. attempt + 1 \<le> j \<and> j < 4 \<longrightarrow> retry_outcome (os j)"
    using Suc.prems by simp
  let ?calls1 = "calls @ [Call_AcquireNextFrame (acq_hr (os attempt))]
        @ (if acq_LastPresentTime (os attempt) = 0
           then release (acq_resource (os attempt)) Release_desktopResource else [])
        @ [Call_ReleaseFrame, Call_Sleep]"
  let ?next = "AcquireNextFrame_loop os (attempt + 1) (acq_hr (os attempt)) 0 ?calls1"
  have step: "AcquireNextFrame_loop os attempt hr res calls = ?next"
    using lt retry by (rule AcquireNextFrame_loop_retry)
  have IH: "SUCCEEDED (fst ?next) \<and> fst (snd ?next) = 0 \<and>
     acquire_attempts (snd (snd ?next)) + (attempt + 1) = acquire_attempts ?calls1 + 4 \<and>
     frame_releases (snd (snd ?next)) + (attempt + 1) = frame_releases ?calls1 + 4"
    using n lt' rest by (rule Suc.hyps(1))
  moreover have "acquire_attempts ?calls1 = acquire_attempts calls + 1"
    and "frame_releases ?calls1 = frame_releases calls + 1"
    by simp_all
  ultimately show ?case
    unfolding step by simp
qed

lemma DX11_Startup_ok:
  "DX11_Startup DX11_new dx_startup_ok =
     (True, DX11_new\<lparr>m_device := 21, m_deviceContext := 22, m_outputDuplication := 23\<rparr>,
      [Call_D3D11CreateDevice D3D_DRIVER_TYPE_HARDWARE, Call_DuplicateOutput])"
  by (simp add: DX11_Startup_def DX11_new_def dx_startup_ok_def InitializeDevice_def
      StartOutputDuplication_def SUCCEEDED_def FAILED_def Let_def)

lemma dx11_started_eq:
  "dx11_started = DX11_new\<lparr>m_device := 21, m_deviceContext := 22, m_outputDuplication := 23\<rparr>"
  by (simp add: dx11_started_def DX11_Startup_ok)

lemma DX11_AcquireNextFrame_rgba:
  "DX11_AcquireNextFrame dx_capture_rgba =
     (True, 32, [Call_AcquireNextFrame 0, Call_QueryInterface, Release_desktopResource])"
  by (simp add: DX11_AcquireNextFrame_def dx_capture_rgba_def dx_capture_bgra_def
      frame_ready_def AcquireNextFrame_loop.simps [of _ 0] SUCCEEDED_def FAILED_def Let_def)

lemma DX11_CaptureFrame_rgba:
  "DX11_CaptureFrame dx11_started dx_capture_rgba =
     (False, dx11_started,
      [Call_AcquireNextFrame 0, Call_QueryInterface, Release_desktopResource, Call_GetDesc])"
  apply (simp add: DX11_CaptureFrame_def DX11_AcquireNextFrame_rgba Let_def)
  apply (simp add: dx11_started_eq DX11_new_def dx_capture_rgba_def dx_capture_bgra_def IsFormat32bit_def
      DXGI_FORMAT_B8G8R8A8_UNORM_def DXGI_FORMAT_B8G8R8X8_UNORM_def
      DXGI_FORMAT_B8G8R8A8_TYPELESS_def DXGI_FORMAT_B8G8R8A8_UNORM_SRGB_def
      DXGI_FORMAT_B8G8R8X8_TYPELESS_def DXGI_FORMAT_B8G8R8X8_UNORM_SRGB_def)
  done

text \<open>
  Claim C1. The claim asks that a frame acquired from the duplication session is
  released before \<^verbatim>\<open>CaptureFrame\<close> returns, also when the format is not accepted. The
  code returns from the format check without calling \<^verbatim>\<open>ReleaseFrame\<close>: in the run below
  the first acquisition succeeds with a texture, the mode description reports format 28
  (\<^verbatim>\<open>DXGI_FORMAT_R8G8B8A8_UNORM\<close>), and the call returns false after four calls, none of
  them \<^verbatim>\<open>ReleaseFrame\<close>, so that the session still holds the frame.
\<close>

theorem DX11_CaptureFrame_format_mismatch_keeps_frame:
  "fst (DX11_AcquireNextFrame dx_capture_rgba) \<and>
   fst (snd (DX11_AcquireNextFrame dx_capture_rgba)) \<noteq> 0 \<and>
   fst (DX11_CaptureFrame dx11_started dx_capture_rgba) = False \<and>
   snd (snd (DX11_CaptureFrame dx11_started dx_capture_rgba)) =
     [Call_AcquireNextFrame 0, Call_QueryInterface, Release_desktopResource, Call_GetDesc] \<and>
   frame_held False (snd (snd (DX11_CaptureFrame dx11_started dx_capture_rgba))) = True \<and>
   frame_releases (snd (snd (DX11_CaptureFrame dx11_started dx_capture_rgba))) = 0"
  by (simp add: DX11_CaptureFrame_rgba DX11_AcquireNextFrame_rgba SUCCEEDED_def)

theorem DX11_CaptureFrame_format_mismatch_keeps_frame_witness:
  "\<not> fst (DX11_CaptureFrame dx11_started dx_capture_rgba) \<and>
   frame_held False (snd (snd (DX11_CaptureFrame dx11_started dx_capture_rgba)))"
  using DX11_CaptureFrame_format_mismatch_keeps_frame by blast

lemma DX11_CaptureFrame_failed_metadata:
  "\<not> fst (DX11_CaptureFrame d os) \<Longrightarrow>
   m_frameWidth (fst (snd (DX11_CaptureFrame d os))) = 0 \<and>
   m_frameHeight (fst (snd (DX11_CaptureFrame d os))) = 0 \<and>
   m_frameStride (fst (snd (DX11_CaptureFrame d os))) = 0 \<and>
   m_frameDepth (fst (snd (DX11_CaptureFrame d os))) = 0"
  by (simp add: DX11_CaptureFrame_def CopyStagingTextureToMemory_def Let_def split: if_splits)

text \<open>
  Claim C6. Whenever \<^verbatim>\<open>CaptureFrame\<close> of the DX11 backend returns false, for whatever
  reason, the width, height, stride and depth it leaves are zero.
\<close>

theorem DX11_CaptureFrame_failure_clears_metadata:
  "\<not> fst (DX11_CaptureFrame d os) \<Longrightarrow>
   DX11_GetFrameWidth (fst (snd (DX11_CaptureFrame d os))) = 0 \<and>
   DX11_GetFrameHeight (fst (snd (DX11_CaptureFrame d os))) = 0 \<and>
   DX11_GetFrameStride (fst (snd (DX11_CaptureFrame d os))) = 0 \<and>
   DX11_GetFrameDepth (fst (snd (DX11_CaptureFrame d os))) = 0"
  using DX11_CaptureFrame_failed_metadata [of d os]
  by (simp add: DX11_GetFrameWidth_def DX11_GetFrameHeight_def DX11_GetFrameStride_def
      DX11_GetFrameDepth_def)

lemma DX11_AcquireNextFrame_attempts:
  "acquire_attempts (snd (snd (DX11_AcquireNextFrame os))) \<le> 4"
  using AcquireNextFrame_loop_attempts [of 0 "os_AcquireNextFrame os" E_FAIL 0 "[]"]
  by (simp add: DX11_AcquireNextFrame_def Let_def)

lemma DX11_CaptureFrame_attempts:
  "acquire_attempts (snd (snd (DX11_CaptureFrame d os))) \<le> 4"
  using DX11_AcquireNextFrame_attempts [of os]
  by (simp add: DX11_CaptureFrame_def CreateStagingTexture_def CopyStagingTextureToMemory_def
      Let_def)

lemma DX11_AcquireNextFrame_stops:
  assumes "k < 4" and "\<forall>j<k. retry_outcome (os_AcquireNextFrame os j)"
    and "\<not> retry_outcome (os_AcquireNextFrame os k)"
  shows "acquire_attempts (snd (snd (DX11_AcquireNextFrame os))) = k + 1 \<and>
     frame_releases (snd (snd (DX11_AcquireNextFrame os))) = k \<and>
     (FAILED (acq_hr (os_AcquireNextFrame os k)) \<longrightarrow> \<not> fst (DX11_AcquireNextFrame os))"
proof -
  have "\<forall>j. 0 \<le> j \<and> j < k \<longrightarrow> retry_outcome (os_AcquireNextFrame os j)"
    using assms(2) by simp
  from AcquireNextFrame_loop_stops [OF _ assms(1) this assms(3), of E_FAIL 0 "[]"]
  show ?thesis
    by (simp add: DX11_AcquireNextFrame_def Let_def)
qed

lemma DX11_AcquireNextFrame_exhausted:
  assumes "\<forall>j<4. retry_outcome (os_AcquireNextFrame os j)"
  shows "acquire_attempts (snd (snd (DX11_AcquireNextFrame os))) = 4 \<and>
     frame_releases (snd (snd (DX11_AcquireNextFrame os))) = 4 \<and>
     \<not> fst (DX11_AcquireNextFrame os)"
proof -
  have "\<forall>j. 0 \<le> j \<and> j < 4 \<longrightarrow> retry_outcome (os_AcquireNextFrame os j)"
    using assms by simp
  from AcquireNextFrame_loop_exhausted [OF _ this, of E_FAIL 0 "[]"]
  show ?thesis
    by (simp add: DX11_AcquireNextFrame_def Let_def)
qed

lemma DX11_CaptureFrame_needs_frame:
  "\<not> fst (DX11_AcquireNextFrame os) \<Longrightarrow> \<not> fst (DX11_CaptureFrame d os)"
  by (simp add: DX11_CaptureFrame_def Let_def)

text \<open>
  Claim C7. A \<^verbatim>\<open>CaptureFrame\<close> call makes at most four acquisition attempts. When the
  first \<open>k\<close> outcomes are retry outcomes and outcome \<open>k\<close> is a failure (a timeout or a
  driver error), the call returns false after \<open>k + 1\<close> attempts, the \<open>k\<close> earlier ones
  each followed by \<^verbatim>\<open>ReleaseFrame\<close>, and makes no call after the loop; any outcome
  that is not a retry outcome ends the loop in the same way; four retry outcomes in a
  row use up the budget, each released, and the call returns false. The loop is a
  total function: it always returns.
\<close>

theorem DX11_CaptureFrame_bounded_retries:
  "acquire_attempts (snd (snd (DX11_CaptureFrame d os))) \<le> 4 \<and>
   (k < 4 \<and> (\<forall>j<k. retry_outcome (os_AcquireNextFrame os j)) \<and>
      FAILED (acq_hr (os_AcquireNextFrame os k)) \<longrightarrow>
        \<not> fst (DX11_CaptureFrame d os) \<and>
        acquire_attempts (snd (snd (DX11_AcquireNextFrame os))) = k + 1 \<and>
        frame_releases (snd (snd (DX11_AcquireNextFrame os))) = k \<and>
        (m_device d \<noteq> 0 \<and> m_deviceContext d \<noteq> 0 \<and> m_outputDuplication d \<noteq> 0 \<longrightarrow>
           snd (snd (DX11_CaptureFrame d os)) = snd (snd (DX11_AcquireNextFrame os)))) \<and>
   (k < 4 \<and> (\<forall>j<k. retry_outcome (os_AcquireNextFrame os j)) \<and>
      \<not> retry_outcome (os_AcquireNextFrame os k) \<longrightarrow>
        acquire_attempts (snd (snd (DX11_AcquireNextFrame os))) = k + 1 \<and>
        frame_releases (snd (snd (DX11_AcquireNextFrame os))) = k) \<and>
   ((\<forall>j<4. retry_outcome (os_AcquireNextFrame os j)) \<longrightarrow>
        \<not> fst (DX11_CaptureFrame d os) \<and>
        acquire_attempts (snd (snd (DX11_AcquireNextFrame os))) = 4 \<and>
        frame_releases (snd (snd (DX11_AcquireNextFrame os))) = 4)"
proof (intro conjI impI)
  show "acquire_attempts (snd (snd (DX11_CaptureFrame d os))) \<le> 4"
    by (rule DX11_CaptureFrame_attempts)
next
  assume a: "k < 4 \<and> (\<forall>j<k. retry_outcome (os_AcquireNextFrame os j)) \<and>
      FAILED (acq_hr (os_AcquireNextFrame os k))"
  then have "\<not> retry_outcome (os_AcquireNextFrame os k)"
    by (simp add: retry_outcome_def FAILED_def SUCCEEDED_def)
  with a have s: "acquire_attempts (snd (snd (DX11_AcquireNextFrame os))) = k + 1 \<and>
     frame_releases (snd (snd (DX11_AcquireNextFrame os))) = k \<and>
     (FAILED (acq_hr (os_AcquireNextFrame os k)) \<longrightarrow> \<not> fst (DX11_AcquireNextFrame os))"
    by (intro DX11_AcquireNextFrame_stops) simp_all
  with a show "\<not> fst (DX11_CaptureFrame d os)"
    by (simp add: DX11_CaptureFrame_needs_frame)
  from s show "acquire_attempts (snd (snd (DX11_AcquireNextFrame os))) = k + 1"
    and "frame_releases (snd (snd (DX11_AcquireNextFrame os))) = k"
    by simp_all
  assume "m_device d \<noteq> 0 \<and> m_deviceContext d \<noteq> 0 \<and> m_outputDuplication d \<noteq> 0"
  with a s show "snd (snd (DX11_CaptureFrame d os)) = snd (snd (DX11_AcquireNextFrame os))"
    by (simp add: DX11_CaptureFrame_def Let_def)
next
  assume a: "k < 4 \<and> (\<forall>j<k. retry_outcome (os_AcquireNextFrame os j)) \<and>
      \<not> retry_outcome (os_AcquireNextFrame os k)"
  then have s: "acquire_attempts (snd (snd (DX11_AcquireNextFrame os))) = k + 1 \<and>
     frame_releases (snd (snd (DX11_AcquireNextFrame os))) = k \<and>
     (FAILED (acq_hr (os_AcquireNextFrame os k)) \<longrightarrow> \<not> fst (DX11_AcquireNextFrame os))"
    by (intro DX11_AcquireNextFrame_stops) simp_all
  then show "acquire_attempts (snd (snd (DX11_AcquireNextFrame os))) = k + 1"
    and "frame_releases (snd (snd (DX11_AcquireNextFrame os))) = k"
    by simp_all
next
  assume a: "\<forall>j<4. retry_outcome (os_AcquireNextFrame os j)"
  then have s: "acquire_attempts (snd (snd (DX11_AcquireNextFrame os))) = 4 \<and>
     frame_releases (snd (snd (DX11_AcquireNextFrame os))) = 4 \<and>
     \<not> fst (DX11_AcquireNextFrame os)"
    by (rule DX11_AcquireNextFrame_exhausted)
  then show "\<not> fst (DX11_CaptureFrame d os)"
    by (simp add: DX11_CaptureFrame_needs_frame)
  from s show "acquire_attempts (snd (snd (DX11_AcquireNextFrame os))) = 4"
    and "frame_releases (snd (snd (DX11_AcquireNextFrame os))) = 4"
    by simp_all
qed

theorem DX11_CaptureFrame_bounded_retries_witness:
  "\<not> fst (DX11_CaptureFrame dx11_started dx_capture_late_timeout) \<and>
   acquire_attempts (snd (snd (DX11_CaptureFrame dx11_started dx_capture_late_timeout))) = 3 \<and>
   frame_releases (snd (snd (DX11_CaptureFrame dx11_started dx_capture_late_timeout))) = 2"
proof -
  have ready: "m_device dx11_started \<noteq> 0 \<and> m_deviceContext dx11_started \<noteq> 0 \<and>
      m_outputDuplication dx11_started \<noteq> 0"
    by (simp add: dx11_started_eq DX11_new_def)
  have outcomes: "(\<forall>j<2. retry_outcome (os_AcquireNextFrame dx_capture_late_timeout j)) \<and>
      FAILED (acq_hr (os_AcquireNextFrame dx_capture_late_timeout 2))"
    by (simp add: dx_capture_late_timeout_def retry_outcome_def frame_pending_def
        frame_timeout_def SUCCEEDED_def FAILED_def)
  from DX11_CaptureFrame_bounded_retries [of dx11_started dx_capture_late_timeout 2]
    ready outcomes
  show ?thesis by simp
qed

lemma DX11_AcquireNextFrame_bgra:
  "DX11_AcquireNextFrame dx_capture_bgra =
     (True, 32, [Call_AcquireNextFrame 0, Call_QueryInterface, Release_desktopResource])"
  by (simp add: DX11_AcquireNextFrame_def dx_capture_bgra_def
      frame_ready_def AcquireNextFrame_loop.simps [of _ 0] SUCCEEDED_def FAILED_def Let_def)

lemma IsFormat32bit_87: "IsFormat32bit 87"
  by (simp add: IsFormat32bit_def DXGI_FORMAT_B8G8R8A8_UNORM_def)

lemma DX11_CaptureFrame_bgra:
  "DX11_CaptureFrame dx11_started dx_capture_bgra =
     (True,
      dx11_started\<lparr>m_frameBuffer := [1, 2, 3, 4, 5, 6, 7, 8, 9, 10, 11, 12, 13, 14, 15, 16],
        m_frameWidth := 2, m_frameHeight := 2, m_frameDepth := 32, m_frameStride := 8\<rparr>,
      [Call_AcquireNextFrame 0, Call_QueryInterface, Release_desktopResource, Call_GetDesc,
       Call_CreateTexture2D, Call_CopyResource, Call_Map, Call_Unmap,
       Release_stagingTexture, Call_ReleaseFrame])"
  apply (simp add: DX11_CaptureFrame_def DX11_AcquireNextFrame_bgra Let_def)
  apply (simp add: dx11_started_eq DX11_new_def dx_capture_bgra_def IsFormat32bit_87
      CreateStagingTexture_def CopyStagingTextureToMemory_def resize_def mem_store_def
      FAILED_def Let_def)
  done

theorem DX11_CaptureFrame_failure_clears_metadata_witness:
  "DX11_GetFrameWidth dx11_after_frame = 2 \<and>
   \<not> fst (DX11_CaptureFrame dx11_after_frame dx_capture_late_timeout) \<and>
   DX11_GetFrameWidth (fst (snd (DX11_CaptureFrame dx11_after_frame dx_capture_late_timeout))) = 0 \<and>
   DX11_GetFrameHeight (fst (snd (DX11_CaptureFrame dx11_after_frame dx_capture_late_timeout))) = 0 \<and>
   DX11_GetFrameStride (fst (snd (DX11_CaptureFrame dx11_after_frame dx_capture_late_timeout))) = 0 \<and>
   DX11_GetFrameDepth (fst (snd (DX11_CaptureFrame dx11_after_frame dx_capture_late_timeout))) = 0"
proof -
  have timeout: "\<not> fst (DX11_AcquireNextFrame dx_capture_late_timeout)"
    using DX11_AcquireNextFrame_stops [of 2 dx_capture_late_timeout]
    by (simp add: dx_capture_late_timeout_def retry_outcome_def frame_pending_def
        frame_timeout_def SUCCEEDED_def FAILED_def)
  then have failed: "\<not> fst (DX11_CaptureFrame dx11_after_frame dx_capture_late_timeout)"
    by (rule DX11_CaptureFrame_needs_frame)
  have "DX11_GetFrameWidth dx11_after_frame = 2"
    by (simp add: dx11_after_frame_def DX11_CaptureFrame_bgra DX11_GetFrameWidth_def)
  with failed DX11_CaptureFrame_failure_clears_metadata [OF failed] show ?thesis
    by simp
qed

lemma AcquireNextFrame_loop_calls:
  "attempt \<le> 4 \<Longrightarrow>
   set (snd (snd (AcquireNextFrame_loop os attempt hr res calls)))
     \<subseteq> set calls \<union> range Call_AcquireNextFrame
        \<union> {Release_desktopResource, Call_ReleaseFrame, Call_Sleep}"
proof (induction "4 - attempt" arbitrary: attempt hr res calls)
  case 0
  then show ?case by (auto simp: AcquireNextFrame_loop_end)
next
  case (Suc n)
  then have lt: "attempt < 4" and n: "n = 4 - (attempt + 1)" and le: "attempt + 1 \<le> 4"
    by simp_all
  show ?case
  proof (cases "retry_outcome (os attempt)")
    case True
    let ?calls1 = "calls @ [Call_AcquireNextFrame (acq_hr (os attempt))]
          @ (if acq_LastPresentTime (os attempt) = 0
             then release (acq_resource (os attempt)) Release_desktopResource else [])
          @ [Call_ReleaseFrame, Call_Sleep]"
    have step: "AcquireNextFrame_loop os attempt hr res calls =
        AcquireNextFrame_loop os (attempt + 1) (acq_hr (os attempt)) 0 ?calls1"
      using lt True by (rule AcquireNextFrame_loop_retry)
    have "set (snd (snd (AcquireNextFrame_loop os (attempt + 1)
            (acq_hr (os attempt)) 0 ?calls1)))
          \<subseteq> set ?calls1 \<union> range Call_AcquireNextFrame
             \<union> {Release_desktopResource, Call_ReleaseFrame, Call_Sleep}"
      using n le by (rule Suc.hyps(1))
    moreover have "set ?calls1 \<subseteq> set calls \<union> range Call_AcquireNextFrame
             \<union> {Release_desktopResource, Call_ReleaseFrame, Call_Sleep}"
      by (auto simp: release_def)
    ultimately show ?thesis
      unfolding step by blast
  next
    case False
    have step: "AcquireNextFrame_loop os attempt hr res calls =
        (acq_hr (os attempt), acq_resource (os attempt),
         calls @ [Call_AcquireNextFrame (acq_hr (os attempt))])"
      using lt False by (rule AcquireNextFrame_loop_stop)
    show ?thesis
      unfolding step by auto
  qed
qed

lemma DX11_AcquireNextFrame_calls:
  "set (snd (snd (DX11_AcquireNextFrame os)))
     \<subseteq> range Call_AcquireNextFrame
        \<union> {Release_desktopResource, Call_ReleaseFrame, Call_Sleep, Call_QueryInterface}"
  using AcquireNextFrame_loop_calls [of 0 "os_AcquireNextFrame os" E_FAIL 0 "[]"]
  by (auto simp: DX11_AcquireNextFrame_def Let_def)

lemma IsFormat32bit_iff:
  "IsFormat32bit fmt \<longleftrightarrow>
     fmt \<in> {DXGI_FORMAT_B8G8R8A8_UNORM, DXGI_FORMAT_B8G8R8X8_UNORM,
             DXGI_FORMAT_B8G8R8A8_TYPELESS, DXGI_FORMAT_B8G8R8A8_UNORM_SRGB,
             DXGI_FORMAT_B8G8R8X8_TYPELESS, DXGI_FORMAT_B8G8R8X8_UNORM_SRGB}"
  by (auto simp: IsFormat32bit_def)

text \<open>
  Claim C8. In an initialised backend whose acquisition succeeded with a texture: when
  the format of the mode description is none of the six 32-bit BGRA and BGRX formats,
  \<^verbatim>\<open>CaptureFrame\<close> returns false, leaves the frame buffer as it was and makes no call
  that creates, copies or maps a texture; when it is one of the six, the call goes on
  to create the staging texture.
\<close>

theorem DX11_CaptureFrame_format_check:
  assumes ready: "m_device d \<noteq> 0 \<and> m_deviceContext d \<noteq> 0 \<and> m_outputDuplication d \<noteq> 0"
    and acquired: "fst (DX11_AcquireNextFrame os) \<and> fst (snd (DX11_AcquireNextFrame os)) \<noteq> 0"
  shows "(os_desc_Format os \<notin>
            {DXGI_FORMAT_B8G8R8A8_UNORM, DXGI_FORMAT_B8G8R8X8_UNORM,
             DXGI_FORMAT_B8G8R8A8_TYPELESS, DXGI_FORMAT_B8G8R8A8_UNORM_SRGB,
             DXGI_FORMAT_B8G8R8X8_TYPELESS, DXGI_FORMAT_B8G8R8X8_UNORM_SRGB} \<longrightarrow>
          \<not> fst (DX11_CaptureFrame d os) \<and>
          m_frameBuffer (fst (snd (DX11_CaptureFrame d os))) = m_frameBuffer d \<and>
          set (snd (snd (DX11_CaptureFrame d os)))
            \<inter> {Call_CreateTexture2D, Call_CopyResource, Call_Map, Call_Unmap} = {}) \<and>
         (os_desc_Format os \<in>
            {DXGI_FORMAT_B8G8R8A8_UNORM, DXGI_FORMAT_B8G8R8X8_UNORM,
             DXGI_FORMAT_B8G8R8A8_TYPELESS, DXGI_FORMAT_B8G8R8A8_UNORM_SRGB,
             DXGI_FORMAT_B8G8R8X8_TYPELESS, DXGI_FORMAT_B8G8R8X8_UNORM_SRGB} \<longrightarrow>
          Call_CreateTexture2D \<in> set (snd (snd (DX11_CaptureFrame d os))))"
proof (intro conjI impI)
  assume "os_desc_Format os \<notin>
            {DXGI_FORMAT_B8G8R8A8_UNORM, DXGI_FORMAT_B8G8R8X8_UNORM,
             DXGI_FORMAT_B8G8R8A8_TYPELESS, DXGI_FORMAT_B8G8R8A8_UNORM_SRGB,
             DXGI_FORMAT_B8G8R8X8_TYPELESS, DXGI_FORMAT_B8G8R8X8_UNORM_SRGB}"
  then have no: "\<not> IsFormat32bit (os_desc_Format os)"
    by (simp only: IsFormat32bit_iff not_False_eq_True)
  have result: "DX11_CaptureFrame d os =
      (False, d\<lparr>m_frameWidth := 0, m_frameHeight := 0, m_frameStride := 0, m_frameDepth := 0\<rparr>,
       snd (snd (DX11_AcquireNextFrame os)) @ [Call_GetDesc])"
    using ready acquired no by (simp add: DX11_CaptureFrame_def Let_def)
  show "\<not> fst (DX11_CaptureFrame d os)"
    by (simp add: result)
  show "m_frameBuffer (fst (snd (DX11_CaptureFrame d os))) = m_frameBuffer d"
    by (simp add: result)
  show "set (snd (snd (DX11_CaptureFrame d os)))
            \<inter> {Call_CreateTexture2D, Call_CopyResource, Call_Map, Call_Unmap} = {}"
    using DX11_AcquireNextFrame_calls [of os] by (auto simp: result)
next
  assume "os_desc_Format os \<in>
            {DXGI_FORMAT_B8G8R8A8_UNORM, DXGI_FORMAT_B8G8R8X8_UNORM,
             DXGI_FORMAT_B8G8R8A8_TYPELESS, DXGI_FORMAT_B8G8R8A8_UNORM_SRGB,
             DXGI_FORMAT_B8G8R8X8_TYPELESS, DXGI_FORMAT_B8G8R8X8_UNORM_SRGB}"
  then have yes: "IsFormat32bit (os_desc_Format os)"
    by (simp only: IsFormat32bit_iff)
  show "Call_CreateTexture2D \<in> set (snd (snd (DX11_CaptureFrame d os)))"
    using ready acquired yes
    by (simp add: DX11_CaptureFrame_def CreateStagingTexture_def Let_def)
qed

theorem DX11_CaptureFrame_format_check_witness:
  "\<not> fst (DX11_CaptureFrame dx11_started dx_capture_rgba) \<and>
   set (snd (snd (DX11_CaptureFrame dx11_started dx_capture_rgba)))
     \<inter> {Call_CreateTexture2D, Call_CopyResource, Call_Map, Call_Unmap} = {} \<and>
   Call_CreateTexture2D \<in> set (snd (snd (DX11_CaptureFrame dx11_started dx_capture_bgra)))"
proof -
  have ready: "m_device dx11_started \<noteq> 0 \<and> m_deviceContext dx11_started \<noteq> 0 \<and>
      m_outputDuplication dx11_started \<noteq> 0"
    by (simp add: dx11_started_eq DX11_new_def)
  have a1: "fst (DX11_AcquireNextFrame dx_capture_rgba) \<and>
      fst (snd (DX11_AcquireNextFrame dx_capture_rgba)) \<noteq> 0"
    by (simp add: DX11_AcquireNextFrame_rgba)
  have a2: "fst (DX11_AcquireNextFrame dx_capture_bgra) \<and>
      fst (snd (DX11_AcquireNextFrame dx_capture_bgra)) \<noteq> 0"
    by (simp add: DX11_AcquireNextFrame_bgra)
  have f1: "os_desc_Format dx_capture_rgba = 28" and f2: "os_desc_Format dx_capture_bgra = 87"
    by (simp_all add: dx_capture_rgba_def dx_capture_bgra_def)
  from DX11_CaptureFrame_format_check [OF ready a1] DX11_CaptureFrame_format_check [OF ready a2]
  show ?thesis
    unfolding f1 f2
    by (simp add: DXGI_FORMAT_B8G8R8A8_UNORM_def DXGI_FORMAT_B8G8R8X8_UNORM_def
      DXGI_FORMAT_B8G8R8A8_TYPELESS_def DXGI_FORMAT_B8G8R8A8_UNORM_SRGB_def
      DXGI_FORMAT_B8G8R8X8_TYPELESS_def DXGI_FORMAT_B8G8R8X8_UNORM_SRGB_def)
qed

section \<open>Shutdown, the facade and the metadata\<close>

text \<open>
  Claim C9, as amended. \<^verbatim>\<open>Shutdown\<close> of the DX11 backend releases what it holds in the
  order staging texture, duplication session, device, device context (the claim has the
  device context before the device): its calls are a subsequence of that list, and each
  release is made exactly when the pointer is not null. It clears the pixel buffer, and
  it is idempotent: a second \<^verbatim>\<open>Shutdown\<close>, or one before any \<^verbatim>\<open>Startup\<close>, makes no call
  and changes nothing.
\<close>

theorem DX11_Shutdown_release_order:
  "subseq (snd (DX11_Shutdown d))
     [Release_stagingTexture, Release_outputDuplication, Release_device,
      Release_deviceContext] \<and>
   (Release_stagingTexture \<in> set (snd (DX11_Shutdown d)) \<longleftrightarrow> m_stagingTexture d \<noteq> 0) \<and>
   (Release_outputDuplication \<in> set (snd (DX11_Shutdown d))
      \<longleftrightarrow> m_outputDuplication d \<noteq> 0) \<and>
   (Release_device \<in> set (snd (DX11_Shutdown d)) \<longleftrightarrow> m_device d \<noteq> 0) \<and>
   (Release_deviceContext \<in> set (snd (DX11_Shutdown d)) \<longleftrightarrow> m_deviceContext d \<noteq> 0) \<and>
   m_frameBuffer (fst (DX11_Shutdown d)) = [] \<and>
   DX11_Shutdown (fst (DX11_Shutdown d)) = (fst (DX11_Shutdown d), []) \<and>
   DX11_Shutdown DX11_new = (DX11_new, [])"
proof (intro conjI)
  show "subseq (snd (DX11_Shutdown d))
     [Release_stagingTexture, Release_outputDuplication, Release_device,
      Release_deviceContext]"
    by (simp add: DX11_Shutdown_def release_def)
qed (auto simp: DX11_Shutdown_def release_def DX11_new_def)

theorem DX11_Shutdown_release_order_witness:
  "snd (DX11_Shutdown dx11_started) =
     [Release_outputDuplication, Release_device, Release_deviceContext] \<and>
   subseq (snd (DX11_Shutdown dx11_started))
     [Release_stagingTexture, Release_outputDuplication, Release_device,
      Release_deviceContext] \<and>
   DX11_Shutdown (fst (DX11_Shutdown dx11_started)) = (fst (DX11_Shutdown dx11_started), [])"
proof -
  have "snd (DX11_Shutdown dx11_started) =
     [Release_outputDuplication, Release_device, Release_deviceContext]"
    by (simp add: DX11_Shutdown_def release_def dx11_started_eq DX11_new_def)
  with DX11_Shutdown_release_order [of dx11_started] show ?thesis
    by simp
qed

text \<open>
  The order of claim C9 fails on a started backend: the code releases the device before
  the device context, \<open>spec_Shutdown_calls\<close> the other way round.
\<close>

theorem DX11_Shutdown_order_counterexample:
  "snd (DX11_Shutdown dx11_started) =
     [Release_outputDuplication, Release_device, Release_deviceContext] \<and>
   spec_Shutdown_calls dx11_started =
     [Release_outputDuplication, Release_deviceContext, Release_device] \<and>
   snd (DX11_Shutdown dx11_started) \<noteq> spec_Shutdown_calls dx11_started"
  by (simp add: DX11_Shutdown_def spec_Shutdown_calls_def release_def dx11_started_eq
      DX11_new_def)

lemma GDI_Startup_no_dc:
  "GDI_Startup GDI_new gdi_os_no_dc = (False, GDI_new\<lparr>m_width := 1, m_height := 3\<rparr>)"
  by (simp add: GDI_Startup_def GDI_new_def gdi_os_no_dc_def gdi_os_1x3_def Let_def)

text \<open>
  Claim C2. The claim asks that the GDI backend never shows a width above zero without
  a pixel buffer, nor a pixel buffer with width zero. The code breaks both: after a
  successful \<^verbatim>\<open>Startup\<close> followed by \<^verbatim>\<open>Shutdown\<close> the width is zero and
  \<^verbatim>\<open>GetFrameBuffer\<close> still returns the pointer of the deleted DIB section; after a
  \<^verbatim>\<open>Startup\<close> that fails in \<^verbatim>\<open>CreateCompatibleDC\<close> the width is that of the screen and
  \<^verbatim>\<open>GetFrameBuffer\<close> returns null.
\<close>

theorem GDI_width_and_buffer_disagree:
  "fst (GDI_Startup GDI_new gdi_os_1x3) \<and>
   GDI_GetFrameWidth (GDI_Shutdown (snd (GDI_Startup GDI_new gdi_os_1x3))) = 0 \<and>
   GDI_GetFrameBuffer (GDI_Shutdown (snd (GDI_Startup GDI_new gdi_os_1x3))) = 13 \<and>
   fst (GDI_Startup GDI_new gdi_os_no_dc) = False \<and>
   GDI_GetFrameWidth (snd (GDI_Startup GDI_new gdi_os_no_dc)) = 1 \<and>
   GDI_GetFrameBuffer (snd (GDI_Startup GDI_new gdi_os_no_dc)) = 0"
proof -
  have bits: "m_dibBits GDI_new = 0"
    by (simp add: GDI_new_def)
  show ?thesis
    by (simp add: GDI_Startup_1x3 GDI_Startup_no_dc GDI_Shutdown_def GDI_GetFrameWidth_def
        GDI_GetFrameBuffer_def bits)
qed

lemma InitializeDevice_loop_keeps:
  "m_outputDuplication (fst (snd (InitializeDevice_loop os drivers d calls)))
     = m_outputDuplication d \<and>
   m_frameWidth (fst (snd (InitializeDevice_loop os drivers d calls))) = m_frameWidth d \<and>
   m_frameHeight (fst (snd (InitializeDevice_loop os drivers d calls))) = m_frameHeight d \<and>
   m_frameStride (fst (snd (InitializeDevice_loop os drivers d calls))) = m_frameStride d \<and>
   m_frameDepth (fst (snd (InitializeDevice_loop os drivers d calls))) = m_frameDepth d"
  by (induction drivers arbitrary: d calls) (simp_all add: Let_def)

lemma InitializeDevice_loop_failed:
  "\<not> fst (InitializeDevice_loop os drivers d calls) \<Longrightarrow> m_device d = 0 \<Longrightarrow>
   m_device (fst (snd (InitializeDevice_loop os drivers d calls))) = 0"
  by (induction drivers arbitrary: d calls) (simp_all add: Let_def split: if_splits)

lemma DX11_Startup_metadata:
  "m_frameWidth (fst (snd (DX11_Startup d os))) = 0 \<and>
   m_frameHeight (fst (snd (DX11_Startup d os))) = 0 \<and>
   m_frameStride (fst (snd (DX11_Startup d os))) = 0 \<and>
   m_frameDepth (fst (snd (DX11_Startup d os))) = 0"
  by (simp add: DX11_Startup_def InitializeDevice_def StartOutputDuplication_def Let_def
      InitializeDevice_loop_keeps)

lemma DX11_Startup_failed_not_ready:
  assumes failed: "\<not> fst (DX11_Startup DX11_new os)"
    and com: "FAILED (os_DuplicateOutput_hr os) \<longrightarrow> os_DuplicateOutput_duplication os = 0"
  shows "m_device (fst (snd (DX11_Startup DX11_new os))) = 0 \<or>
     m_outputDuplication (fst (snd (DX11_Startup DX11_new os))) = 0"
proof -
  let ?d0 = "DX11_new\<lparr>m_frameBuffer := [], m_frameWidth := 0, m_frameHeight := 0,
                  m_frameDepth := 0, m_frameStride := 0\<rparr>"
  let ?init = "InitializeDevice ?d0 os"
  have dev0: "m_device ?d0 = 0" and dup0: "m_outputDuplication ?d0 = 0"
    by (simp_all add: DX11_new_def)
  show ?thesis
  proof (cases "fst ?init")
    case False
    then have "m_device (fst (snd ?init)) = 0"
      unfolding InitializeDevice_def using dev0 by (rule InitializeDevice_loop_failed)
    with False show ?thesis
      by (simp add: DX11_Startup_def Let_def)
  next
    case True
    have "m_outputDuplication (fst (snd ?init)) = m_outputDuplication ?d0"
      unfolding InitializeDevice_def by (rule InitializeDevice_loop_keeps [THEN conjunct1])
    then have "m_outputDuplication (fst (snd ?init)) = 0"
      using dup0 by simp
    with True failed com show ?thesis
      by (simp add: DX11_Startup_def StartOutputDuplication_def Let_def split: if_splits)
  qed
qed

lemma DX11_CaptureFrame_not_ready:
  "m_device d = 0 \<or> m_outputDuplication d = 0 \<Longrightarrow> \<not> fst (DX11_CaptureFrame d os)"
  by (auto simp: DX11_CaptureFrame_def Let_def)

lemma GDI_Startup_failed_not_started:
  "\<not> fst (GDI_Startup g os) \<Longrightarrow> m_hdcMem (snd (GDI_Startup g os)) = 0"
  by (simp add: GDI_Startup_def Let_def split: if_splits)

lemma ScreenCapture_Startup_consistent:
  "ScreenCapture_consistent sc \<Longrightarrow>
   ScreenCapture_consistent (snd (ScreenCapture_Startup sc mode gos dos))"
  by (cases mode) (simp_all add: ScreenCapture_Startup_def ScreenCapture_Shutdown_def
      ScreenCapture_consistent_def Let_def)

lemma ScreenCapture_CaptureFrame_consistent:
  "ScreenCapture_consistent sc \<Longrightarrow>
   ScreenCapture_consistent (snd (ScreenCapture_CaptureFrame sc blit os))"
  by (auto simp: ScreenCapture_CaptureFrame_def ScreenCapture_consistent_def
      split: option.splits if_splits)

lemma ScreenCapture_Shutdown_consistent:
  "ScreenCapture_consistent (ScreenCapture_Shutdown sc)"
  by (simp add: ScreenCapture_Shutdown_def ScreenCapture_consistent_def)

lemma ScreenCapture_new_consistent: "ScreenCapture_consistent ScreenCapture_new"
  by (simp add: ScreenCapture_new_def ScreenCapture_consistent_def)

lemma DX11_metadata_zero_iff:
  "DX11_metadata d = (0, 0, 0, 0) \<longleftrightarrow>
     m_frameWidth d = 0 \<and> m_frameHeight d = 0 \<and> m_frameStride d = 0 \<and> m_frameDepth d = 0"
  by (auto simp: DX11_metadata_def DX11_GetFrameWidth_def DX11_GetFrameHeight_def
      DX11_GetFrameDepth_def DX11_GetFrameStride_def)

lemma DX11_CaptureFrame_failed_no_metadata:
  "\<not> fst (DX11_CaptureFrame d os) \<Longrightarrow>
   DX11_metadata (fst (snd (DX11_CaptureFrame d os))) = (0, 0, 0, 0)"
  using DX11_CaptureFrame_failed_metadata [of d os] by (simp add: DX11_metadata_zero_iff)

lemma DX11_Startup_no_metadata:
  "DX11_metadata (fst (snd (DX11_Startup d os))) = (0, 0, 0, 0)"
  using DX11_Startup_metadata [of d os] by (simp add: DX11_metadata_zero_iff)

lemma DX11_capture_run_no_frame:
  "True \<notin> set (fst (DX11_capture_run d oss)) \<Longrightarrow> DX11_metadata d = (0, 0, 0, 0) \<Longrightarrow>
   DX11_metadata (snd (DX11_capture_run d oss)) = (0, 0, 0, 0)"
proof (induction oss arbitrary: d)
  case Nil
  then show ?case by simp
next
  case (Cons os oss)
  let ?r = "DX11_CaptureFrame d os"
  from Cons.prems(1) have failed: "\<not> fst ?r"
    and rest: "True \<notin> set (fst (DX11_capture_run (fst (snd ?r)) oss))"
    by (auto simp: Let_def)
  from failed have "DX11_metadata (fst (snd ?r)) = (0, 0, 0, 0)"
    by (rule DX11_CaptureFrame_failed_no_metadata)
  with rest have "DX11_metadata (snd (DX11_capture_run (fst (snd ?r)) oss)) = (0, 0, 0, 0)"
    by (rule Cons.IH)
  then show ?case by (simp add: Let_def)
qed

lemma ScreenCapture_metadata_dx11:
  "m_capgdi sc = None \<Longrightarrow> m_capdx11 sc = Some d \<Longrightarrow>
   ScreenCapture_metadata sc = DX11_metadata d"
  by (simp add: ScreenCapture_metadata_def DX11_metadata_def ScreenCapture_GetFrameWidth_def
      ScreenCapture_GetFrameHeight_def ScreenCapture_GetFrameDepth_def
      ScreenCapture_GetFrameStride_def)

lemma ScreenCapture_capture_run_no_frame:
  "True \<notin> set (fst (ScreenCapture_capture_run sc runs)) \<Longrightarrow>
   m_capgdi sc = None \<Longrightarrow> m_capdx11 sc = Some d \<Longrightarrow> DX11_metadata d = (0, 0, 0, 0) \<Longrightarrow>
   ScreenCapture_metadata (snd (ScreenCapture_capture_run sc runs)) = (0, 0, 0, 0)"
proof (induction runs arbitrary: sc d)
  case Nil
  then show ?case by (simp add: ScreenCapture_metadata_dx11)
next
  case (Cons a runs)
  let ?r = "ScreenCapture_CaptureFrame sc (fst a) (snd a)"
  let ?c = "DX11_CaptureFrame d (snd a)"
  have r: "?r = (fst ?c, sc\<lparr>m_capdx11 := Some (fst (snd ?c))\<rparr>)"
    using Cons.prems(2,3) by (simp add: ScreenCapture_CaptureFrame_def)
  from Cons.prems(1) have failed: "\<not> fst ?r"
    and rest: "True \<notin> set (fst (ScreenCapture_capture_run (snd ?r) runs))"
    by (auto simp: Let_def)
  from failed have "\<not> fst ?c" by (simp add: r)
  then have zero: "DX11_metadata (fst (snd ?c)) = (0, 0, 0, 0)"
    by (rule DX11_CaptureFrame_failed_no_metadata)
  have "ScreenCapture_metadata (snd (ScreenCapture_capture_run (snd ?r) runs)) = (0, 0, 0, 0)"
    using rest _ _ zero by (rule Cons.IH) (simp_all add: r Cons.prems(2))
  then show ?case by (simp add: Let_def)
qed

text \<open>
  Claim C5, as amended. For the DX11 backend, directly and through the facade: after
  \<^verbatim>\<open>Startup\<close>, as long as every \<^verbatim>\<open>CaptureFrame\<close> has returned false, width, height,
  depth and stride are all zero. The GDI backend reports the frame buffer it allocated:
  after a successful \<^verbatim>\<open>Startup\<close>, before any capture, width and height are the size of
  the screen and the depth is 32. Its numbers are all zero before \<^verbatim>\<open>Startup\<close> and after
  \<^verbatim>\<open>Shutdown\<close>, as are those of a session without backend.
\<close>

theorem metadata_before_first_frame:
  "(True \<notin> set (fst (DX11_capture_run (fst (snd (DX11_Startup d dos))) oss)) \<longrightarrow>
      DX11_metadata (snd (DX11_capture_run (fst (snd (DX11_Startup d dos))) oss))
        = (0, 0, 0, 0)) \<and>
   (ScreenCapture_consistent sc \<and>
    True \<notin> set (fst (ScreenCapture_capture_run
      (snd (ScreenCapture_Startup sc ScreenCaptureMode_DX11 gos dos)) runs)) \<longrightarrow>
      ScreenCapture_metadata (snd (ScreenCapture_capture_run
        (snd (ScreenCapture_Startup sc ScreenCaptureMode_DX11 gos dos)) runs))
        = (0, 0, 0, 0)) \<and>
   (fst (GDI_Startup g gos) \<longrightarrow>
      GDI_GetFrameWidth (snd (GDI_Startup g gos)) =
        word_of_int (if 1 < c_monitors gos then cx_virtualscreen gos else cx_screen gos) \<and>
      GDI_GetFrameHeight (snd (GDI_Startup g gos)) =
        word_of_int (if 1 < c_monitors gos then cy_virtualscreen gos else cy_screen gos) \<and>
      GDI_GetFrameDepth (snd (GDI_Startup g gos)) = 32) \<and>
   GDI_metadata GDI_new = (0, 0, 0, 0) \<and>
   GDI_metadata (GDI_Shutdown g) = (0, 0, 0, 0) \<and>
   ScreenCapture_metadata ScreenCapture_new = (0, 0, 0, 0) \<and>
   ScreenCapture_metadata (ScreenCapture_Shutdown sc) = (0, 0, 0, 0)"
proof (intro conjI impI)
  assume "True \<notin> set (fst (DX11_capture_run (fst (snd (DX11_Startup d dos))) oss))"
  then show "DX11_metadata (snd (DX11_capture_run (fst (snd (DX11_Startup d dos))) oss))
        = (0, 0, 0, 0)"
    using DX11_Startup_no_metadata by (rule DX11_capture_run_no_frame)
next
  let ?sc = "snd (ScreenCapture_Startup sc ScreenCaptureMode_DX11 gos dos)"
  assume a: "ScreenCapture_consistent sc \<and>
    True \<notin> set (fst (ScreenCapture_capture_run ?sc runs))"
  then have gdi: "m_capgdi ?sc = None"
    by (simp add: ScreenCapture_Startup_def ScreenCapture_Shutdown_def
        ScreenCapture_consistent_def Let_def split: if_splits)
  have dx: "m_capdx11 ?sc = Some (fst (snd (DX11_Startup DX11_new dos)))"
    by (simp add: ScreenCapture_Startup_def Let_def)
  from a have "True \<notin> set (fst (ScreenCapture_capture_run ?sc runs))" by simp
  then show "ScreenCapture_metadata (snd (ScreenCapture_capture_run ?sc runs)) = (0, 0, 0, 0)"
    using gdi dx DX11_Startup_no_metadata by (rule ScreenCapture_capture_run_no_frame)
next
  assume ok: "fst (GDI_Startup g gos)"
  then show "GDI_GetFrameWidth (snd (GDI_Startup g gos)) =
        word_of_int (if 1 < c_monitors gos then cx_virtualscreen gos else cx_screen gos)"
    by (simp add: GDI_Startup_def GDI_GetFrameWidth_def Let_def split: if_splits)
  from ok show "GDI_GetFrameHeight (snd (GDI_Startup g gos)) =
        word_of_int (if 1 < c_monitors gos then cy_virtualscreen gos else cy_screen gos)"
    by (simp add: GDI_Startup_def GDI_GetFrameHeight_def Let_def split: if_splits)
  from ok show "GDI_GetFrameDepth (snd (GDI_Startup g gos)) = 32"
    by (simp add: GDI_Startup_def GDI_GetFrameDepth_def Let_def split: if_splits)
next
  show "GDI_metadata GDI_new = (0, 0, 0, 0)"
    by (simp add: GDI_metadata_def GDI_new_def GDI_GetFrameWidth_def GDI_GetFrameHeight_def
        GDI_GetFrameDepth_def GDI_GetFrameStride_def)
  show "GDI_metadata (GDI_Shutdown g) = (0, 0, 0, 0)"
    by (simp add: GDI_metadata_def GDI_Shutdown_def GDI_GetFrameWidth_def
        GDI_GetFrameHeight_def GDI_GetFrameDepth_def GDI_GetFrameStride_def)
  show "ScreenCapture_metadata ScreenCapture_new = (0, 0, 0, 0)"
    by (simp add: ScreenCapture_metadata_def ScreenCapture_new_def
        ScreenCapture_GetFrameWidth_def ScreenCapture_GetFrameHeight_def
        ScreenCapture_GetFrameDepth_def ScreenCapture_GetFrameStride_def)
  show "ScreenCapture_metadata (ScreenCapture_Shutdown sc) = (0, 0, 0, 0)"
    by (simp add: ScreenCapture_metadata_def ScreenCapture_Shutdown_def
        ScreenCapture_GetFrameWidth_def ScreenCapture_GetFrameHeight_def
        ScreenCapture_GetFrameDepth_def ScreenCapture_GetFrameStride_def)
qed

text \<open>
  Claim C5 as stated fails for the GDI backend: straight after a successful
  \<^verbatim>\<open>Startup\<close>, with no frame captured, the four numbers are those of the screen.
\<close>

theorem metadata_before_first_frame_counterexample:
  "fst (GDI_Startup GDI_new gdi_os_1x3) \<and>
   GDI_metadata (snd (GDI_Startup GDI_new gdi_os_1x3)) = (1, 3, 32, 4) \<and>
   fst (ScreenCapture_Startup ScreenCapture_new ScreenCaptureMode_GDI gdi_os_1x3
     dx_startup_ok) \<and>
   ScreenCapture_metadata (snd (ScreenCapture_Startup ScreenCapture_new
     ScreenCaptureMode_GDI gdi_os_1x3 dx_startup_ok)) = (1, 3, 32, 4)"
  by (simp add: ScreenCapture_Startup_def ScreenCapture_new_def GDI_Startup_1x3
      ScreenCapture_metadata_def GDI_metadata_def
      ScreenCapture_GetFrameWidth_def ScreenCapture_GetFrameHeight_def
      ScreenCapture_GetFrameDepth_def ScreenCapture_GetFrameStride_def
      GDI_GetFrameWidth_def GDI_GetFrameHeight_def
      GDI_GetFrameDepth_def GDI_GetFrameStride_def Let_def)

theorem metadata_before_first_frame_witness:
  "fst (DX11_capture_run (fst (snd (DX11_Startup DX11_new dx_startup_ok)))
      [dx_capture_late_timeout, dx_capture_rgba]) = [False, False] \<and>
   DX11_metadata (snd (DX11_capture_run (fst (snd (DX11_Startup DX11_new dx_startup_ok)))
      [dx_capture_late_timeout, dx_capture_rgba])) = (0, 0, 0, 0) \<and>
   GDI_GetFrameWidth (snd (GDI_Startup GDI_new gdi_os_1x3)) = 1"
proof -
  have timeout: "\<not> fst (DX11_AcquireNextFrame dx_capture_late_timeout)"
    using DX11_AcquireNextFrame_stops [of 2 dx_capture_late_timeout]
    by (simp add: dx_capture_late_timeout_def retry_outcome_def frame_pending_def
        frame_timeout_def SUCCEEDED_def FAILED_def)
  have first: "\<not> fst (DX11_CaptureFrame dx11_started dx_capture_late_timeout)"
    using timeout by (rule DX11_CaptureFrame_needs_frame)
  have ready: "m_device dx11_started \<noteq> 0 \<and> m_deviceContext dx11_started \<noteq> 0 \<and>
      m_outputDuplication dx11_started \<noteq> 0"
    by (simp add: dx11_started_eq DX11_new_def)
  have state: "fst (snd (DX11_CaptureFrame dx11_started dx_capture_late_timeout)) = dx11_started"
    using ready timeout
    by (simp add: DX11_CaptureFrame_def Let_def dx11_started_eq DX11_new_def)
  have results: "fst (DX11_capture_run (fst (snd (DX11_Startup DX11_new dx_startup_ok)))
      [dx_capture_late_timeout, dx_capture_rgba]) = [False, False]"
    using first state by (simp add: Let_def DX11_CaptureFrame_rgba dx11_started_def [symmetric])
  have width: "GDI_GetFrameWidth (snd (GDI_Startup GDI_new gdi_os_1x3)) = 1"
    by (simp add: GDI_Startup_1x3 GDI_GetFrameWidth_def)
  from metadata_before_first_frame
    [of DX11_new dx_startup_ok "[dx_capture_late_timeout, dx_capture_rgba]" ScreenCapture_new
      gdi_os_1x3 "[]" GDI_new]
    results width
  show ?thesis by simp
qed

section \<open>A failed start of the session\<close>

lemma ScreenCapture_capture_run_no_backend:
  "m_capgdi sc = None \<Longrightarrow> m_capdx11 sc = None \<Longrightarrow>
   ScreenCapture_capture_run sc runs = (replicate (length runs) False, sc)"
  by (induction runs) (simp_all add: ScreenCapture_CaptureFrame_def Let_def)

lemma ScreenCapture_capture_run_gdi_not_started:
  "m_capgdi sc = Some g \<Longrightarrow> m_hdcMem g = 0 \<Longrightarrow>
   ScreenCapture_capture_run sc runs = (replicate (length runs) False, sc)"
proof (induction runs)
  case Nil
  show ?case by simp
next
  case (Cons a runs)
  have "ScreenCapture_CaptureFrame sc (fst a) (snd a) = (False, sc)"
    using Cons.prems by (simp add: ScreenCapture_CaptureFrame_def GDI_CaptureFrame_def)
  with Cons show ?case by (simp add: Let_def)
qed

lemma ScreenCapture_capture_run_dx11_not_ready:
  "m_capgdi sc = None \<Longrightarrow> m_capdx11 sc = Some d \<Longrightarrow>
   m_device d = 0 \<or> m_outputDuplication d = 0 \<Longrightarrow>
   fst (ScreenCapture_capture_run sc runs) = replicate (length runs) False"
proof (induction runs arbitrary: sc d)
  case Nil
  show ?case by simp
next
  case (Cons a runs)
  let ?d1 = "d\<lparr>m_frameWidth := 0, m_frameHeight := 0, m_frameStride := 0, m_frameDepth := 0\<rparr>"
  have c: "DX11_CaptureFrame d (snd a) = (False, ?d1, [])"
    using Cons.prems(3) by (auto simp: DX11_CaptureFrame_def Let_def)
  have r: "ScreenCapture_CaptureFrame sc (fst a) (snd a) = (False, sc\<lparr>m_capdx11 := Some ?d1\<rparr>)"
    using Cons.prems(1,2) by (simp add: ScreenCapture_CaptureFrame_def c)
  have "fst (ScreenCapture_capture_run (sc\<lparr>m_capdx11 := Some ?d1\<rparr>) runs)
      = replicate (length runs) False"
    using Cons.prems by (intro Cons.IH [of _ ?d1]) simp_all
  then show ?case by (simp add: Let_def r)
qed

lemma GDI_Startup_failed_depth_stride:
  "\<not> fst (GDI_Startup GDI_new os) \<Longrightarrow>
   m_depth (snd (GDI_Startup GDI_new os)) = 0 \<and> m_stride (snd (GDI_Startup GDI_new os)) = 0"
  by (simp add: GDI_Startup_def GDI_new_def Let_def split: if_splits)

text \<open>
  Claim C3, as amended. When \<^verbatim>\<open>ScreenCapture::Startup(mode)\<close> returns false, the session
  records the requested mode and the backend object it created for that mode stays
  installed: a GDI backend exactly when the mode is GDI, a DX11 backend exactly when the
  mode is DX11, none for any other mode. All the same, every following \<^verbatim>\<open>CaptureFrame\<close>
  returns false, and after any number of them the metadata queries answer as with no
  backend: width, height, depth and stride are all zero unless the mode is GDI, and in
  GDI mode depth and stride are zero. What width and height are after a failed GDI
  \<^verbatim>\<open>Startup\<close> is not part of this statement. The session is one the operations can
  reach (\<open>ScreenCapture_consistent\<close>), and a failed \<^verbatim>\<open>DuplicateOutput\<close> stores a null
  pointer, as COM requires.
\<close>

theorem ScreenCapture_Startup_failure_keeps_backend:
  assumes consistent: "ScreenCapture_consistent sc"
    and failed: "\<not> fst (ScreenCapture_Startup sc mode gos dos)"
    and com: "FAILED (os_DuplicateOutput_hr dos) \<longrightarrow> os_DuplicateOutput_duplication dos = 0"
  shows "m_mode (snd (ScreenCapture_Startup sc mode gos dos)) = mode \<and>
     (m_capgdi (snd (ScreenCapture_Startup sc mode gos dos)) \<noteq> None
        \<longleftrightarrow> mode = ScreenCaptureMode_GDI) \<and>
     (m_capdx11 (snd (ScreenCapture_Startup sc mode gos dos)) \<noteq> None
        \<longleftrightarrow> mode = ScreenCaptureMode_DX11) \<and>
     \<not> fst (ScreenCapture_CaptureFrame (snd (ScreenCapture_Startup sc mode gos dos)) blit os) \<and>
     fst (ScreenCapture_capture_run (snd (ScreenCapture_Startup sc mode gos dos)) runs)
       = replicate (length runs) False \<and>
     (mode \<noteq> ScreenCaptureMode_GDI \<longrightarrow>
        ScreenCapture_metadata
          (snd (ScreenCapture_capture_run (snd (ScreenCapture_Startup sc mode gos dos)) runs))
          = (0, 0, 0, 0)) \<and>
     ScreenCapture_GetFrameDepth
       (snd (ScreenCapture_capture_run (snd (ScreenCapture_Startup sc mode gos dos)) runs)) = 0 \<and>
     ScreenCapture_GetFrameStride
       (snd (ScreenCapture_capture_run (snd (ScreenCapture_Startup sc mode gos dos)) runs)) = 0"
proof -
  let ?sc1 = "if m_mode sc \<noteq> ScreenCaptureMode_Invalid then ScreenCapture_Shutdown sc else sc"
  let ?sc = "snd (ScreenCapture_Startup sc mode gos dos)"
  have none: "m_capgdi ?sc1 = None \<and> m_capdx11 ?sc1 = None"
    using consistent
    by (simp add: ScreenCapture_consistent_def ScreenCapture_Shutdown_def split: if_splits)
  have meta: "ScreenCapture_GetFrameDepth s = 0 \<and> ScreenCapture_GetFrameStride s = 0"
    if "ScreenCapture_metadata s = (0, 0, 0, 0)" for s
    using that by (simp add: ScreenCapture_metadata_def)
  show ?thesis
  proof (cases mode)
    case ScreenCaptureMode_Invalid
    with none have b: "m_capgdi ?sc = None" "m_capdx11 ?sc = None"
      by (simp_all add: ScreenCapture_Startup_def Let_def)
    have run: "ScreenCapture_capture_run ?sc runs = (replicate (length runs) False, ?sc)"
      using b by (rule ScreenCapture_capture_run_no_backend)
    have zero: "ScreenCapture_metadata ?sc = (0, 0, 0, 0)"
      using b by (simp add: ScreenCapture_metadata_def ScreenCapture_GetFrameWidth_def
          ScreenCapture_GetFrameHeight_def ScreenCapture_GetFrameDepth_def
          ScreenCapture_GetFrameStride_def)
    have mode': "m_mode ?sc = mode"
      by (simp add: ScreenCapture_Startup_def Let_def)
    have frame: "\<not> fst (ScreenCapture_CaptureFrame ?sc blit os)"
      using b by (simp add: ScreenCapture_CaptureFrame_def)
    have results: "fst (ScreenCapture_capture_run ?sc runs) = replicate (length runs) False"
      and final: "snd (ScreenCapture_capture_run ?sc runs) = ?sc"
      by (simp_all add: run)
    show ?thesis
      unfolding final
      using ScreenCaptureMode_Invalid b mode' frame results zero meta [OF zero]
      by simp
  next
    case ScreenCaptureMode_GDI
    let ?g = "snd (GDI_Startup GDI_new gos)"
    from ScreenCaptureMode_GDI failed have nfail: "\<not> fst (GDI_Startup GDI_new gos)"
      by (simp add: ScreenCapture_Startup_def Let_def)
    then have hdc: "m_hdcMem ?g = 0"
      by (rule GDI_Startup_failed_not_started)
    from nfail have ds: "m_depth ?g = 0 \<and> m_stride ?g = 0"
      by (rule GDI_Startup_failed_depth_stride)
    have b: "m_capgdi ?sc = Some ?g" "m_capdx11 ?sc = None" "m_mode ?sc = mode"
      using ScreenCaptureMode_GDI none by (simp_all add: ScreenCapture_Startup_def Let_def)
    have run: "ScreenCapture_capture_run ?sc runs = (replicate (length runs) False, ?sc)"
      using b(1) hdc by (rule ScreenCapture_capture_run_gdi_not_started)
    have frame: "\<not> fst (ScreenCapture_CaptureFrame ?sc blit os)"
      using b(1) hdc by (simp add: ScreenCapture_CaptureFrame_def GDI_CaptureFrame_def)
    have results: "fst (ScreenCapture_capture_run ?sc runs) = replicate (length runs) False"
      and final: "snd (ScreenCapture_capture_run ?sc runs) = ?sc"
      by (simp_all add: run)
    have "ScreenCapture_GetFrameDepth ?sc = 0 \<and> ScreenCapture_GetFrameStride ?sc = 0"
      using b(1) ds by (simp add: ScreenCapture_GetFrameDepth_def
          ScreenCapture_GetFrameStride_def GDI_GetFrameDepth_def GDI_GetFrameStride_def)
    then show ?thesis
      unfolding final
      using ScreenCaptureMode_GDI b frame results by simp
  next
    case ScreenCaptureMode_DX11
    let ?d = "fst (snd (DX11_Startup DX11_new dos))"
    from ScreenCaptureMode_DX11 failed have "\<not> fst (DX11_Startup DX11_new dos)"
      by (simp add: ScreenCapture_Startup_def Let_def)
    then have notready: "m_device ?d = 0 \<or> m_outputDuplication ?d = 0"
      using com by (rule DX11_Startup_failed_not_ready)
    have b: "m_capgdi ?sc = None" "m_capdx11 ?sc = Some ?d" "m_mode ?sc = mode"
      using ScreenCaptureMode_DX11 none by (simp_all add: ScreenCapture_Startup_def Let_def)
    have results: "fst (ScreenCapture_capture_run ?sc runs) = replicate (length runs) False"
      using b(1,2) notready by (rule ScreenCapture_capture_run_dx11_not_ready)
    then have "True \<notin> set (fst (ScreenCapture_capture_run ?sc runs))"
      by simp
    then have zero: "ScreenCapture_metadata (snd (ScreenCapture_capture_run ?sc runs))
        = (0, 0, 0, 0)"
      using b(1,2) DX11_Startup_no_metadata by (rule ScreenCapture_capture_run_no_frame)
    have frame: "\<not> fst (ScreenCapture_CaptureFrame ?sc blit os)"
      using b(1,2) DX11_CaptureFrame_not_ready [OF notready]
      by (simp add: ScreenCapture_CaptureFrame_def)
    show ?thesis
      using ScreenCaptureMode_DX11 b frame results zero meta [OF zero] by simp
  qed
qed

lemma DX11_Startup_no_driver:
  "DX11_Startup DX11_new dx_startup_no_driver = (False, DX11_new,
     [Call_D3D11CreateDevice D3D_DRIVER_TYPE_HARDWARE,
      Call_D3D11CreateDevice D3D_DRIVER_TYPE_WARP,
      Call_D3D11CreateDevice D3D_DRIVER_TYPE_REFERENCE])"
  by (simp add: DX11_Startup_def DX11_new_def dx_startup_no_driver_def dx_startup_ok_def
      InitializeDevice_def E_FAIL_def SUCCEEDED_def release_def Let_def)

text \<open>
  Claim C3 as stated fails: after a failed \<^verbatim>\<open>Startup\<close> the backend object is installed
  and the mode is the requested one, in GDI mode (\<^verbatim>\<open>CreateCompatibleDC\<close> fails, and
  \<^verbatim>\<open>GetFrameWidth\<close> returns the screen width) and in DX11 mode (no driver type yields a
  device).
\<close>

theorem ScreenCapture_Startup_failure_counterexample:
  "fst (ScreenCapture_Startup ScreenCapture_new ScreenCaptureMode_GDI gdi_os_no_dc
      dx_startup_ok) = False \<and>
   m_capgdi (snd (ScreenCapture_Startup ScreenCapture_new ScreenCaptureMode_GDI gdi_os_no_dc
      dx_startup_ok)) = Some (GDI_new\<lparr>m_width := 1, m_height := 3\<rparr>) \<and>
   ScreenCapture_GetFrameWidth (snd (ScreenCapture_Startup ScreenCapture_new
      ScreenCaptureMode_GDI gdi_os_no_dc dx_startup_ok)) = 1 \<and>
   ScreenCapture_GetFrameWidth ScreenCapture_new = 0 \<and>
   fst (ScreenCapture_Startup ScreenCapture_new ScreenCaptureMode_DX11 gdi_os_1x3
      dx_startup_no_driver) = False \<and>
   m_capdx11 (snd (ScreenCapture_Startup ScreenCapture_new ScreenCaptureMode_DX11 gdi_os_1x3
      dx_startup_no_driver)) = Some DX11_new \<and>
   m_mode (snd (ScreenCapture_Startup ScreenCapture_new ScreenCaptureMode_DX11 gdi_os_1x3
      dx_startup_no_driver)) = ScreenCaptureMode_DX11 \<and>
   m_capdx11 ScreenCapture_new = None \<and> m_mode ScreenCapture_new = ScreenCaptureMode_Invalid"
  by (simp add: ScreenCapture_Startup_def ScreenCapture_new_def GDI_Startup_no_dc
      DX11_Startup_no_driver
      ScreenCapture_GetFrameWidth_def GDI_GetFrameWidth_def Let_def)

theorem ScreenCapture_Startup_failure_keeps_backend_witness:
  "m_capgdi (snd (ScreenCapture_Startup ScreenCapture_new ScreenCaptureMode_GDI gdi_os_no_dc
      dx_startup_ok)) \<noteq> None \<and>
   fst (ScreenCapture_capture_run (snd (ScreenCapture_Startup ScreenCapture_new
      ScreenCaptureMode_GDI gdi_os_no_dc dx_startup_ok))
      [(None, dx_capture_bgra), (Some image_1x3, dx_capture_bgra)]) = [False, False] \<and>
   ScreenCapture_GetFrameDepth (snd (ScreenCapture_capture_run (snd (ScreenCapture_Startup
      ScreenCapture_new ScreenCaptureMode_GDI gdi_os_no_dc dx_startup_ok))
      [(None, dx_capture_bgra), (Some image_1x3, dx_capture_bgra)])) = 0 \<and>
   m_capdx11 (snd (ScreenCapture_Startup ScreenCapture_new ScreenCaptureMode_DX11 gdi_os_1x3
      dx_startup_no_driver)) \<noteq> None \<and>
   fst (ScreenCapture_capture_run (snd (ScreenCapture_Startup ScreenCapture_new
      ScreenCaptureMode_DX11 gdi_os_1x3 dx_startup_no_driver))
      [(None, dx_capture_bgra)]) = [False] \<and>
   ScreenCapture_metadata (snd (ScreenCapture_capture_run (snd (ScreenCapture_Startup
      ScreenCapture_new ScreenCaptureMode_DX11 gdi_os_1x3 dx_startup_no_driver))
      [(None, dx_capture_bgra)])) = (0, 0, 0, 0)"
proof -
  have failed1: "\<not> fst (ScreenCapture_Startup ScreenCapture_new ScreenCaptureMode_GDI
      gdi_os_no_dc dx_startup_ok)"
    by (simp add: ScreenCapture_Startup_def GDI_Startup_no_dc Let_def)
  have com1: "FAILED (os_DuplicateOutput_hr dx_startup_ok) \<longrightarrow>
      os_DuplicateOutput_duplication dx_startup_ok = 0"
    by (simp add: dx_startup_ok_def FAILED_def)
  have failed2: "\<not> fst (ScreenCapture_Startup ScreenCapture_new ScreenCaptureMode_DX11
      gdi_os_1x3 dx_startup_no_driver)"
    by (simp add: ScreenCapture_Startup_def DX11_Startup_no_driver Let_def)
  have com2: "FAILED (os_DuplicateOutput_hr dx_startup_no_driver) \<longrightarrow>
      os_DuplicateOutput_duplication dx_startup_no_driver = 0"
    by (simp add: dx_startup_no_driver_def dx_startup_ok_def FAILED_def)
  from ScreenCapture_Startup_failure_keeps_backend
      [OF ScreenCapture_new_consistent failed1 com1, of None dx_capture_bgra
        "[(None, dx_capture_bgra), (Some image_1x3, dx_capture_bgra)]"]
    ScreenCapture_Startup_failure_keeps_backend
      [OF ScreenCapture_new_consistent failed2 com2, of None dx_capture_bgra
        "[(None, dx_capture_bgra)]"]
  show ?thesis by (simp del: ScreenCapture_capture_run.simps)
qed

section \<open>Further properties\<close>

lemma frame_held_append:
  "frame_held held (xs @ ys) = frame_held (frame_held held xs) ys"
  by (induction held xs rule: frame_held.induct) simp_all

lemma frame_held_released: "frame_held held (xs @ [Call_ReleaseFrame]) = False"
  by (simp add: frame_held_append)

text \<open>
  On every path of \<^verbatim>\<open>CaptureFrame\<close> behind the format check (the staging texture cannot
  be created, the copy fails, the copy succeeds) the last call is \<^verbatim>\<open>ReleaseFrame\<close>, so
  the session holds no frame when the function returns.
\<close>

theorem DX11_CaptureFrame_releases_accepted_frame:
  assumes ready: "m_device d \<noteq> 0 \<and> m_deviceContext d \<noteq> 0 \<and> m_outputDuplication d \<noteq> 0"
    and acquired: "fst (DX11_AcquireNextFrame os) \<and> fst (snd (DX11_AcquireNextFrame os)) \<noteq> 0"
    and format: "IsFormat32bit (os_desc_Format os)"
  shows "\<not> frame_held held (snd (snd (DX11_CaptureFrame d os)))"
proof -
  obtain calls where "snd (snd (DX11_CaptureFrame d os)) = calls @ [Call_ReleaseFrame]"
    using ready acquired format
    by (cases "fst (CreateStagingTexture os)")
       (simp_all add: DX11_CaptureFrame_def Let_def append_assoc [symmetric]
         del: append_assoc)
  then show ?thesis
    by (simp add: frame_held_released)
qed

theorem DX11_CaptureFrame_releases_accepted_frame_witness:
  "\<not> frame_held False (snd (snd (DX11_CaptureFrame dx11_started dx_capture_bgra)))"
proof -
  have ready: "m_device dx11_started \<noteq> 0 \<and> m_deviceContext dx11_started \<noteq> 0 \<and>
      m_outputDuplication dx11_started \<noteq> 0"
    by (simp add: dx11_started_eq DX11_new_def)
  have acquired: "fst (DX11_AcquireNextFrame dx_capture_bgra) \<and>
      fst (snd (DX11_AcquireNextFrame dx_capture_bgra)) \<noteq> 0"
    by (simp add: DX11_AcquireNextFrame_bgra)
  have format: "IsFormat32bit (os_desc_Format dx_capture_bgra)"
    by (simp add: dx_capture_bgra_def IsFormat32bit_87)
  show ?thesis
    using ready acquired format by (rule DX11_CaptureFrame_releases_accepted_frame)
qed

lemma align4_aligned: "stride mod 4 = 0 \<Longrightarrow> align4 stride = stride"
  by (subst align4.simps) simp

text \<open>
  The stride \<^verbatim>\<open>Startup\<close> computes. The \<^verbatim>\<open>unsigned\<close> product \<^verbatim>\<open>m_width * 32\<close> divided by
  8 is four times the low 27 bits of the width: a multiple of 4 that fits an \<^verbatim>\<open>int\<close>,
  so the alignment loop never runs.
\<close>

lemma stride_word_value: "sint (((w::32 word) * 32) div 8) = 4 * (uint w mod 2 ^ 27)"
proof -
  define x where "x = (w * 32) div 8"
  have "uint (w * 32) = (uint w * 32) mod 2 ^ 32"
    by (simp add: uint_word_ariths)
  also have "\<dots> = (32 * uint w) mod (32 * 2 ^ 27)"
    by (simp add: mult.commute)
  also have "\<dots> = 32 * (uint w mod 2 ^ 27)"
    by (simp only: mult_mod_right)
  finally have "uint x = (32 * (uint w mod 2 ^ 27)) div 8"
    by (simp add: x_def uint_div_distrib)
  then have quadruple: "uint x = 4 * (uint w mod 2 ^ 27)"
    by simp
  have "uint w mod 2 ^ 27 < 2 ^ 27"
    by simp
  then have small: "uint x < 2 ^ 31"
    unfolding quadruple by simp
  have "sint x = signed_take_bit 31 (uint x)"
    by (simp add: sint_uint)
  also have "\<dots> = uint x"
  proof (rule signed_take_bit_int_eq_self)
    have "- (2 ^ 31) \<le> (0::int)" by simp
    also have "0 \<le> uint x" by simp
    finally show "- (2 ^ 31) \<le> uint x" .
    show "uint x < 2 ^ 31" by (rule small)
  qed
  finally have "sint x = 4 * (uint w mod 2 ^ 27)"
    by (simp only: quadruple)
  then show ?thesis
    by (simp only: x_def)
qed

theorem GDI_Startup_stride:
  assumes "fst (GDI_Startup g os)"
  shows "m_stride (snd (GDI_Startup g os)) = 4 * (uint (m_width (snd (GDI_Startup g os))) mod 2 ^ 27) \<and>
     0 \<le> m_stride (snd (GDI_Startup g os)) \<and>
     m_stride (snd (GDI_Startup g os)) mod 4 = 0 \<and>
     GDI_GetFrameDepth (snd (GDI_Startup g os)) = 32"
proof -
  have aligned: "align4 (4 * k) = 4 * k" for k :: int
    by (rule align4_aligned) simp
  have "m_stride (snd (GDI_Startup g os)) =
      4 * (uint (m_width (snd (GDI_Startup g os))) mod 2 ^ 27)"
    using assms
    by (simp add: GDI_Startup_def Let_def stride_word_value aligned split: if_splits)
  moreover have "GDI_GetFrameDepth (snd (GDI_Startup g os)) = 32"
    using assms by (simp add: GDI_Startup_def GDI_GetFrameDepth_def Let_def split: if_splits)
  ultimately show ?thesis
    by simp
qed

theorem GDI_Startup_stride_witness:
  "m_stride (snd (GDI_Startup GDI_new gdi_os_1x3)) = 4"
proof -
  have "fst (GDI_Startup GDI_new gdi_os_1x3)"
    by (simp add: GDI_Startup_1x3)
  from GDI_Startup_stride [OF this] show ?thesis
    by (simp add: GDI_Startup_1x3)
qed

text \<open>
  After \<^verbatim>\<open>ScreenCapture::Startup(mode)\<close>, whatever it returns and whatever backend was
  installed before, the session holds the backend of the requested mode and no other.
\<close>

theorem ScreenCapture_Startup_one_backend:
  assumes "ScreenCapture_consistent sc"
  shows "m_mode (snd (ScreenCapture_Startup sc mode gos dos)) = mode \<and>
     (m_capgdi (snd (ScreenCapture_Startup sc mode gos dos)) \<noteq> None
        \<longleftrightarrow> mode = ScreenCaptureMode_GDI) \<and>
     (m_capdx11 (snd (ScreenCapture_Startup sc mode gos dos)) \<noteq> None
        \<longleftrightarrow> mode = ScreenCaptureMode_DX11) \<and>
     ScreenCapture_consistent (snd (ScreenCapture_Startup sc mode gos dos))"
  using assms
  by (cases mode) (simp_all add: ScreenCapture_Startup_def ScreenCapture_Shutdown_def
      ScreenCapture_consistent_def Let_def split: if_splits)

theorem ScreenCapture_Startup_one_backend_witness:
  "m_capgdi (snd (ScreenCapture_Startup
      (snd (ScreenCapture_Startup ScreenCapture_new ScreenCaptureMode_GDI gdi_os_1x3
         dx_startup_ok))
      ScreenCaptureMode_DX11 gdi_os_1x3 dx_startup_ok)) = None \<and>
   m_capdx11 (snd (ScreenCapture_Startup
      (snd (ScreenCapture_Startup ScreenCapture_new ScreenCaptureMode_GDI gdi_os_1x3
         dx_startup_ok))
      ScreenCaptureMode_DX11 gdi_os_1x3 dx_startup_ok)) \<noteq> None"
proof -
  have "ScreenCapture_consistent (snd (ScreenCapture_Startup ScreenCapture_new
      ScreenCaptureMode_GDI gdi_os_1x3 dx_startup_ok))"
    using ScreenCapture_new_consistent by (rule ScreenCapture_Startup_consistent)
  from ScreenCapture_Startup_one_backend [OF this, of ScreenCaptureMode_DX11 gdi_os_1x3
    dx_startup_ok]
  show ?thesis by simp
qed

end
